theory Spec2Isabelle
  imports Complex_Main "HOL-Library.Word"
begin

unbundle bit_operations_syntax

section \<open>The frame buffer abstraction of \<^verbatim>\<open>ply-video-buffer.c\<close>\<close>

text \<open>
  A shallow embedding of \<^verbatim>\<open>src/ply-video-buffer.c\<close>. Every C function that the
  properties below are about is one HOL definition with the C function's name.

  \<^item> \<^verbatim>\<open>uint32_t\<close> is \<open>32 word\<close>, \<^verbatim>\<open>uint8_t\<close> is \<open>8 word\<close>.
  \<^item> \<^verbatim>\<open>unsigned long\<close> and \<^verbatim>\<open>long\<close> counters, coordinates and byte offsets are
    \<open>nat\<close>: the program never subtracts below zero on them, and no property below
    depends on wrap-around at \<open>2 ^ 64\<close>.
  \<^item> \<^verbatim>\<open>double\<close> is \<open>real\<close>: rounding of IEEE arithmetic is not modelled. The closed
    evaluations below that state a pixel value use inputs on which every floating
    point operation of the program is exact (operands \<open>0\<close>, \<open>1/2\<close>, \<open>1\<close>, \<open>255\<close>),
    and the universally quantified statements only use \<open>c * 1 = c\<close> and
    \<open>1 - 1 = 0\<close>, which IEEE arithmetic shares.
  \<^item> \<^verbatim>\<open>assert\<close> aborts the program: the result \<open>Inl AssertionFailed\<close>.
  \<^item> an access to the shadow buffer or to the caller's pixel data outside the array
    is undefined behaviour in C, and a write through \<^verbatim>\<open>MAP_FAILED\<close> is a crash: the
    result \<open>Inl MemoryFault\<close>.
\<close>

type_synonym u8 = "8 word"
type_synonym u32 = "32 word"

datatype fault = AssertionFailed | MemoryFault

text \<open>
  Modelled from the spec: the declaration of \<^verbatim>\<open>PlyVideoBufferArea\<close> is in
  \<^verbatim>\<open>ply-video-buffer.h\<close>, which is not among the sources. The spec calls it a
  rectangle \<open>(x, y, width, height)\<close>; the C file reads the fields \<^verbatim>\<open>x\<close>, \<^verbatim>\<open>y\<close>,
  \<^verbatim>\<open>width\<close>, \<^verbatim>\<open>height\<close> and passes them on as \<^verbatim>\<open>unsigned long\<close>.
\<close>

record PlyVideoBufferArea =
  area_x :: nat
  area_y :: nat
  area_width :: nat
  area_height :: nat

text \<open>
  \<^verbatim>\<open>struct _PlyVideoBuffer\<close>. \<open>map_address\<close> is \<open>None\<close> for \<^verbatim>\<open>MAP_FAILED\<close> and otherwise
  the bytes of the mapping, addressed by their offset from the mapped address. The
  store is not cut off at \<open>map_size\<close> (the field \<^verbatim>\<open>size\<close>): \<^verbatim>\<open>mmap\<close> maps whole pages and
  the program writes past \<^verbatim>\<open>size\<close> (see \<open>memcpy_pixel\<close>), so the model does not judge
  such writes. \<^verbatim>\<open>device_name\<close> plays no part below and is left out.
\<close>

record PlyVideoBuffer =
  device_fd :: int
  map_address :: "(nat \<Rightarrow> u8) option"
  map_size :: nat
  shadow_buffer :: "u32 list"
  red_bit_position :: u32
  green_bit_position :: u32
  blue_bit_position :: u32
  alpha_bit_position :: u32
  bits_for_red :: u32
  bits_for_green :: u32
  bits_for_blue :: u32
  bits_for_alpha :: u32
  bits_per_pixel :: nat
  bytes_per_pixel :: nat
  area :: PlyVideoBufferArea
  area_to_flush :: PlyVideoBufferArea
  is_paused :: bool

text \<open>
  What the operating system answers and what lies in memory next to a local
  variable is not decided by the program; it is an argument of the model.
  \<open>msync_result\<close> is the value \<^verbatim>\<open>msync\<close> returns for a start offset and a size;
  \<open>beyond_pixel k\<close> is the byte at \<^verbatim>\<open>(char *) &device_pixel_value + k\<close> for \<open>k \<ge> 4\<close>.
\<close>

record environment =
  msync_result :: "nat \<Rightarrow> nat \<Rightarrow> int"
  beyond_pixel :: "nat \<Rightarrow> u8"

subsection \<open>Pixel values\<close>

text \<open>
  Modelled from the spec: the macro \<^verbatim>\<open>PLY_VIDEO_BUFFER_COLOR_TO_PIXEL_VALUE\<close> is
  defined in \<^verbatim>\<open>ply-video-buffer.h\<close>, which is not among the sources. The spec: each
  channel is re-quantized from \<open>0.0 .. 1.0\<close> to \<open>0 .. 255\<close> and packed with alpha in
  bits 24-31, red in 16-23, green in 8-15 and blue in 0-7. The quantization is
  written as a C cast does it: scale by 255, clamp, drop the fraction.
\<close>

definition color_channel_to_byte :: "real \<Rightarrow> u32" where
  "color_channel_to_byte c = word_of_int \<lfloor>max 0 (min 255 (c * 255))\<rfloor>"

definition PLY_VIDEO_BUFFER_COLOR_TO_PIXEL_VALUE :: "real \<Rightarrow> real \<Rightarrow> real \<Rightarrow> real \<Rightarrow> u32" where
  "PLY_VIDEO_BUFFER_COLOR_TO_PIXEL_VALUE r g b a =
     push_bit 24 (color_channel_to_byte a)
     OR push_bit 16 (color_channel_to_byte r)
     OR push_bit 8 (color_channel_to_byte g)
     OR color_channel_to_byte b"

text \<open>
  \<^verbatim>\<open>ply_video_buffer_pixel_value_to_device_pixel_value\<close> (lines 207-229). The four
  locals are \<^verbatim>\<open>uint8_t\<close>; \<^verbatim>\<open>8 - buffer->bits_for_alpha\<close> is \<^verbatim>\<open>uint32_t\<close> arithmetic and
  wraps when the width is above 8. A shift by 32 or more is undefined in C; here it
  yields 0.
\<close>

definition ply_video_buffer_pixel_value_to_device_pixel_value :: "PlyVideoBuffer \<Rightarrow> u32 \<Rightarrow> u32" where
  "ply_video_buffer_pixel_value_to_device_pixel_value buffer pixel_value =
     (let a = (ucast (drop_bit 24 pixel_value) :: u8);
          a = drop_bit (unat (8 - bits_for_alpha buffer)) a;
          r = (ucast (drop_bit 16 pixel_value AND 0xff) :: u8);
          r = drop_bit (unat (8 - bits_for_red buffer)) r;
          g = (ucast (drop_bit 8 pixel_value AND 0xff) :: u8);
          g = drop_bit (unat (8 - bits_for_green buffer)) g;
          b = (ucast (pixel_value AND 0xff) :: u8);
          b = drop_bit (unat (8 - bits_for_blue buffer)) b
      in push_bit (unat (alpha_bit_position buffer)) (ucast a :: u32)
         OR push_bit (unat (red_bit_position buffer)) (ucast r)
         OR push_bit (unat (green_bit_position buffer)) (ucast g)
         OR push_bit (unat (blue_bit_position buffer)) (ucast b))"

text \<open>
  \<^verbatim>\<open>blend_two_pixel_values\<close> (lines 259-282). The red channel of the second pixel
  is read with a shift of 26, as the source has it. The colours are updated before
  alpha, so all three use the alpha of the first pixel.
\<close>

definition blend_two_pixel_values :: "u32 \<Rightarrow> u32 \<Rightarrow> u32" where
  "blend_two_pixel_values pixel_value_1 pixel_value_2 =
     (let alpha = real (unat (drop_bit 24 pixel_value_1)) / 255;
          red = real (unat (drop_bit 16 pixel_value_1 AND 0xff)) / 255;
          green = real (unat (drop_bit 8 pixel_value_1 AND 0xff)) / 255;
          blue = real (unat (pixel_value_1 AND 0xff)) / 255;
          alpha_2 = real (unat (drop_bit 24 pixel_value_2)) / 255;
          red_2 = real (unat (drop_bit 26 pixel_value_2 AND 0xff)) / 255;
          green_2 = real (unat (drop_bit 8 pixel_value_2 AND 0xff)) / 255;
          blue_2 = real (unat (pixel_value_2 AND 0xff)) / 255;
          red = red + red_2 * (1 - alpha);
          green = green + green_2 * (1 - alpha);
          blue = blue + blue_2 * (1 - alpha);
          alpha = alpha + alpha_2 * (1 - alpha)
      in PLY_VIDEO_BUFFER_COLOR_TO_PIXEL_VALUE red green blue alpha)"

text \<open>\<^verbatim>\<open>make_pixel_value_translucent\<close> (lines 284-301).\<close>

definition make_pixel_value_translucent :: "u32 \<Rightarrow> real \<Rightarrow> u32" where
  "make_pixel_value_translucent pixel_value opacity =
     (let alpha = real (unat (drop_bit 24 pixel_value)) / 255;
          red = real (unat (drop_bit 16 pixel_value AND 0xff)) / 255;
          green = real (unat (drop_bit 8 pixel_value AND 0xff)) / 255;
          blue = real (unat (pixel_value AND 0xff)) / 255;
          alpha = alpha * opacity;
          red = red * opacity;
          green = green * opacity;
          blue = blue * opacity
      in PLY_VIDEO_BUFFER_COLOR_TO_PIXEL_VALUE red green blue alpha)"

subsection \<open>The shadow buffer\<close>

text \<open>
  \<^verbatim>\<open>ply_video_buffer_get_value_at_pixel\<close> (lines 231-243) and
  \<^verbatim>\<open>ply_video_buffer_set_value_at_pixel\<close> (lines 245-257): the pixel \<open>(x, y)\<close> is the
  element \<^verbatim>\<open>y * buffer->area.width + x\<close>.
\<close>

definition ply_video_buffer_get_value_at_pixel :: "PlyVideoBuffer \<Rightarrow> nat \<Rightarrow> nat \<Rightarrow> fault + u32" where
  "ply_video_buffer_get_value_at_pixel buffer x y =
     (if y * area_width (area buffer) + x < length (shadow_buffer buffer)
      then Inr (shadow_buffer buffer ! (y * area_width (area buffer) + x))
      else Inl MemoryFault)"

definition ply_video_buffer_set_value_at_pixel :: "PlyVideoBuffer \<Rightarrow> nat \<Rightarrow> nat \<Rightarrow> u32 \<Rightarrow> fault + PlyVideoBuffer" where
  "ply_video_buffer_set_value_at_pixel buffer x y pixel_value =
     (if y * area_width (area buffer) + x < length (shadow_buffer buffer)
      then Inr (buffer\<lparr>shadow_buffer :=
                  (shadow_buffer buffer)[y * area_width (area buffer) + x := pixel_value]\<rparr>)
      else Inl MemoryFault)"

text \<open>\<^verbatim>\<open>ply_video_buffer_blend_value_at_pixel\<close> (lines 303-315).\<close>

definition ply_video_buffer_blend_value_at_pixel :: "PlyVideoBuffer \<Rightarrow> nat \<Rightarrow> nat \<Rightarrow> u32 \<Rightarrow> fault + PlyVideoBuffer" where
  "ply_video_buffer_blend_value_at_pixel buffer x y pixel_value =
     (case ply_video_buffer_get_value_at_pixel buffer x y of
        Inl f \<Rightarrow> Inl f
      | Inr old_pixel_value \<Rightarrow>
          (let new_pixel_value = blend_two_pixel_values pixel_value old_pixel_value
           in ply_video_buffer_set_value_at_pixel buffer x y new_pixel_value))"

text \<open>
  A C loop \<^verbatim>\<open>for (i = first; i < last; i++) body\<close> whose bounds the body does not
  change runs the body for \<open>[first..<last]\<close> in order and stops at the first fault.
\<close>

fun for_loop :: "nat list \<Rightarrow> (nat \<Rightarrow> 's \<Rightarrow> fault + 's) \<Rightarrow> 's \<Rightarrow> fault + 's" where
  "for_loop [] body s = Inr s"
| "for_loop (i # rest) body s =
     (case body i s of Inl f \<Rightarrow> Inl f | Inr s' \<Rightarrow> for_loop rest body s')"

text \<open>
  \<^verbatim>\<open>ply_video_buffer_set_area_to_pixel_value\<close> (lines 317-333) and
  \<^verbatim>\<open>ply_video_buffer_blend_area_with_pixel_value\<close> (lines 335-351).
\<close>

definition ply_video_buffer_set_area_to_pixel_value :: "PlyVideoBuffer \<Rightarrow> PlyVideoBufferArea \<Rightarrow> u32 \<Rightarrow> fault + PlyVideoBuffer" where
  "ply_video_buffer_set_area_to_pixel_value buffer a pixel_value =
     for_loop [area_y a ..< area_y a + area_height a] (\<lambda>row.
       for_loop [area_x a ..< area_x a + area_width a] (\<lambda>column buffer.
         ply_video_buffer_set_value_at_pixel buffer column row pixel_value)) buffer"

definition ply_video_buffer_blend_area_with_pixel_value :: "PlyVideoBuffer \<Rightarrow> PlyVideoBufferArea \<Rightarrow> u32 \<Rightarrow> fault + PlyVideoBuffer" where
  "ply_video_buffer_blend_area_with_pixel_value buffer a pixel_value =
     for_loop [area_y a ..< area_y a + area_height a] (\<lambda>row.
       for_loop [area_x a ..< area_x a + area_width a] (\<lambda>column buffer.
         ply_video_buffer_blend_value_at_pixel buffer column row pixel_value)) buffer"

subsection \<open>The area to flush\<close>

text \<open>
  \<^verbatim>\<open>ply_video_buffer_add_area_to_flush_area\<close> (lines 353-370). \<^verbatim>\<open>MIN\<close> and \<^verbatim>\<open>MAX\<close> are
  the usual macros of the system headers. The asserts on the pointers and on
  \<^verbatim>\<open>area->width >= 0\<close>, \<^verbatim>\<open>area->height >= 0\<close> cannot fail here.
\<close>

definition ply_video_buffer_add_area_to_flush_area :: "PlyVideoBuffer \<Rightarrow> PlyVideoBufferArea \<Rightarrow> fault + PlyVideoBuffer" where
  "ply_video_buffer_add_area_to_flush_area buffer a =
     (if \<not> area_x a \<ge> area_x (area buffer) then Inl AssertionFailed
      else if \<not> area_y a \<ge> area_y (area buffer) then Inl AssertionFailed
      else if \<not> area_x a < area_width (area buffer) then Inl AssertionFailed
      else if \<not> area_y a < area_height (area buffer) then Inl AssertionFailed
      else Inr (buffer\<lparr>area_to_flush :=
        \<lparr>area_x = min (area_x (area_to_flush buffer)) (area_x a),
         area_y = min (area_y (area_to_flush buffer)) (area_y a),
         area_width = max (area_width (area_to_flush buffer)) (area_width a),
         area_height = max (area_height (area_to_flush buffer)) (area_height a)\<rparr>\<rparr>))"

subsection \<open>Copying to the device\<close>

text \<open>
  The bytes of the local \<^verbatim>\<open>device_pixel_value\<close> as \<^verbatim>\<open>memcpy\<close> reads them: the four
  bytes of the value, least significant first (the byte order of the machines the
  program was written on), then whatever follows the variable in memory.
  \<open>memcpy_pixel memory offset env v n\<close> is the mapping after
  \<^verbatim>\<open>memcpy (buffer->map_address + offset, &device_pixel_value, n)\<close>.
\<close>

definition pixel_byte :: "environment \<Rightarrow> u32 \<Rightarrow> nat \<Rightarrow> u8" where
  "pixel_byte env v k = (if k < 4 then ucast (drop_bit (8 * k) v) else beyond_pixel env k)"

definition memcpy_pixel :: "(nat \<Rightarrow> u8) \<Rightarrow> nat \<Rightarrow> environment \<Rightarrow> u32 \<Rightarrow> nat \<Rightarrow> (nat \<Rightarrow> u8)" where
  "memcpy_pixel memory offset env v n =
     (\<lambda>address. if offset \<le> address \<and> address < offset + n
                then pixel_byte env v (address - offset) else memory address)"

text \<open>
  \<^verbatim>\<open>ply_video_buffer_copy_to_device\<close> (lines 372-414). The shadow buffer is read at
  \<^verbatim>\<open>width * row + column\<close>, where \<^verbatim>\<open>width\<close> is the argument; \<^verbatim>\<open>memcpy\<close> is given
  \<^verbatim>\<open>buffer->bits_per_pixel\<close> as its length; a row of the device is
  \<^verbatim>\<open>buffer->area.width * buffer->bytes_per_pixel\<close> bytes.
\<close>

definition ply_video_buffer_copy_to_device :: "environment \<Rightarrow> PlyVideoBuffer \<Rightarrow> nat \<Rightarrow> nat \<Rightarrow> nat \<Rightarrow> nat \<Rightarrow> fault + (bool \<times> PlyVideoBuffer)" where
  "ply_video_buffer_copy_to_device env buffer x y width height =
     (let bytes_per_row = area_width (area buffer) * bytes_per_pixel buffer;
          start_offset = y * bytes_per_row + x * bytes_per_pixel buffer;
          size = width * height * bytes_per_pixel buffer
      in case
           for_loop [y ..< y + height] (\<lambda>row.
             for_loop [x ..< x + width] (\<lambda>column buffer.
               if width * row + column < length (shadow_buffer buffer) then
                 (let pixel_value = shadow_buffer buffer ! (width * row + column);
                      device_pixel_value =
                        ply_video_buffer_pixel_value_to_device_pixel_value buffer pixel_value;
                      offset = row * bytes_per_row + column * bytes_per_pixel buffer
                  in case map_address buffer of
                       None \<Rightarrow> Inl MemoryFault
                     | Some memory \<Rightarrow>
                         Inr (buffer\<lparr>map_address := Some (memcpy_pixel memory offset env
                                device_pixel_value (bits_per_pixel buffer))\<rparr>))
               else Inl MemoryFault)) buffer
         of Inl f \<Rightarrow> Inl f
          | Inr buffer \<Rightarrow>
              if msync_result env start_offset size < 0 then Inr (False, buffer)
              else Inr (True, buffer))"

text \<open>
  \<^verbatim>\<open>ply_video_buffer_flush\<close> (lines 416-445). The locals \<^verbatim>\<open>start_offset\<close> and
  \<^verbatim>\<open>size\<close> of the C function are computed and never used.
\<close>

definition ply_video_buffer_flush :: "environment \<Rightarrow> PlyVideoBuffer \<Rightarrow> fault + (bool \<times> PlyVideoBuffer)" where
  "ply_video_buffer_flush env buffer =
     (if is_paused buffer then Inr (True, buffer)
      else case ply_video_buffer_copy_to_device env buffer
                  (area_x (area_to_flush buffer)) (area_y (area_to_flush buffer))
                  (area_width (area_to_flush buffer)) (area_height (area_to_flush buffer))
           of Inl f \<Rightarrow> Inl f
            | Inr (copied, buffer) \<Rightarrow>
                if \<not> copied then Inr (False, buffer)
                else Inr (True, buffer\<lparr>area_to_flush :=
                       \<lparr>area_x = 0, area_y = 0, area_width = 0, area_height = 0\<rparr>\<rparr>))"

subsection \<open>The public operations\<close>

text \<open>\<^verbatim>\<open>ply_video_buffer_pause_updates\<close> and \<^verbatim>\<open>ply_video_buffer_unpause_updates\<close> (lines 528-543).\<close>

definition ply_video_buffer_pause_updates :: "PlyVideoBuffer \<Rightarrow> PlyVideoBuffer" where
  "ply_video_buffer_pause_updates buffer = buffer\<lparr>is_paused := True\<rparr>"

definition ply_video_buffer_unpause_updates :: "environment \<Rightarrow> PlyVideoBuffer \<Rightarrow> fault + (bool \<times> PlyVideoBuffer)" where
  "ply_video_buffer_unpause_updates env buffer =
     ply_video_buffer_flush env (buffer\<lparr>is_paused := False\<rparr>)"

text \<open>\<^verbatim>\<open>ply_video_buffer_device_is_open\<close> (lines 545-550).\<close>

definition ply_video_buffer_device_is_open :: "PlyVideoBuffer \<Rightarrow> bool" where
  "ply_video_buffer_device_is_open buffer \<longleftrightarrow> device_fd buffer \<ge> 0 \<and> map_address buffer \<noteq> None"

text \<open>
  \<^verbatim>\<open>ply_video_buffer_fill_with_color\<close> (lines 604-634). The file includes
  \<^verbatim>\<open>stdlib.h\<close> and, before this function, not \<^verbatim>\<open>math.h\<close>: \<^verbatim>\<open>abs\<close> is \<^verbatim>\<open>int abs (int)\<close>,
  and its \<^verbatim>\<open>double\<close> argument \<^verbatim>\<open>alpha - 1.0\<close> is converted to \<^verbatim>\<open>int\<close>, which drops
  the fraction (\<open>double_to_int\<close>). \<^verbatim>\<open>DBL_MIN\<close> is the least positive normal
  \<^verbatim>\<open>double\<close>.
\<close>

definition double_to_int :: "real \<Rightarrow> int" where
  "double_to_int d = (if 0 \<le> d then \<lfloor>d\<rfloor> else \<lceil>d\<rceil>)"

definition DBL_MIN :: real where
  "DBL_MIN = 1 / 2 ^ 1022"

text \<open>The condition \<^verbatim>\<open>abs (alpha - 1.0) <= DBL_MIN\<close> of line 626.\<close>

definition abs_alpha_minus_1_le_DBL_MIN :: "real \<Rightarrow> bool" where
  "abs_alpha_minus_1_le_DBL_MIN alpha \<longleftrightarrow> real_of_int \<bar>double_to_int (alpha - 1)\<bar> \<le> DBL_MIN"

definition ply_video_buffer_fill_with_color :: "environment \<Rightarrow> PlyVideoBuffer \<Rightarrow> PlyVideoBufferArea option \<Rightarrow> real \<Rightarrow> real \<Rightarrow> real \<Rightarrow> real \<Rightarrow> fault + (bool \<times> PlyVideoBuffer)" where
  "ply_video_buffer_fill_with_color env buffer area_arg red green blue alpha =
     (if \<not> ply_video_buffer_device_is_open buffer then Inl AssertionFailed
      else
        (let a = (case area_arg of None \<Rightarrow> area buffer | Some a \<Rightarrow> a);
             red = red * alpha;
             green = green * alpha;
             blue = blue * alpha;
             pixel_value = PLY_VIDEO_BUFFER_COLOR_TO_PIXEL_VALUE red green blue alpha
         in case (if abs_alpha_minus_1_le_DBL_MIN alpha
                  then ply_video_buffer_set_area_to_pixel_value buffer a pixel_value
                  else ply_video_buffer_blend_area_with_pixel_value buffer a pixel_value)
            of Inl f \<Rightarrow> Inl f
             | Inr buffer \<Rightarrow>
                 (case ply_video_buffer_add_area_to_flush_area buffer a of
                    Inl f \<Rightarrow> Inl f
                  | Inr buffer \<Rightarrow> ply_video_buffer_flush env buffer)))"

text \<open>
  \<^verbatim>\<open>ply_video_buffer_fill_with_argb32_data_at_opacity\<close> (lines 636-672) and
  \<^verbatim>\<open>ply_video_buffer_fill_with_argb32_data\<close> (lines 674-686). \<open>data\<close> is the caller's
  array.
\<close>

definition ply_video_buffer_fill_with_argb32_data_at_opacity :: "environment \<Rightarrow> PlyVideoBuffer \<Rightarrow> PlyVideoBufferArea option \<Rightarrow> nat \<Rightarrow> nat \<Rightarrow> nat \<Rightarrow> nat \<Rightarrow> u32 list \<Rightarrow> real \<Rightarrow> fault + (bool \<times> PlyVideoBuffer)" where
  "ply_video_buffer_fill_with_argb32_data_at_opacity env buffer area_arg x y width height data opacity =
     (if \<not> ply_video_buffer_device_is_open buffer then Inl AssertionFailed
      else
        (let a = (case area_arg of None \<Rightarrow> area buffer | Some a \<Rightarrow> a)
         in case
              for_loop [y ..< y + height] (\<lambda>row.
                for_loop [x ..< x + width] (\<lambda>column buffer.
                  if width * row + column < length data then
                    (let pixel_value = data ! (width * row + column);
                         pixel_value = make_pixel_value_translucent pixel_value opacity
                     in ply_video_buffer_blend_value_at_pixel buffer
                          (area_x a + (column - x)) (area_y a + (row - y)) pixel_value)
                  else Inl MemoryFault)) buffer
            of Inl f \<Rightarrow> Inl f
             | Inr buffer \<Rightarrow>
                 (case ply_video_buffer_add_area_to_flush_area buffer a of
                    Inl f \<Rightarrow> Inl f
                  | Inr buffer \<Rightarrow> ply_video_buffer_flush env buffer)))"

definition ply_video_buffer_fill_with_argb32_data :: "environment \<Rightarrow> PlyVideoBuffer \<Rightarrow> PlyVideoBufferArea option \<Rightarrow> nat \<Rightarrow> nat \<Rightarrow> nat \<Rightarrow> nat \<Rightarrow> u32 list \<Rightarrow> fault + (bool \<times> PlyVideoBuffer)" where
  "ply_video_buffer_fill_with_argb32_data env buffer area_arg x y width height data =
     ply_video_buffer_fill_with_argb32_data_at_opacity env buffer area_arg x y width height data 1"

section \<open>Predicates of the statements\<close>

text \<open>
  \<open>same_but_shadow b b'\<close>: \<open>b'\<close> is \<open>b\<close> but for the contents of the shadow buffer, which
  has kept its length. \<open>same_but_map b b'\<close>: \<open>b'\<close> is \<open>b\<close> but for the bytes of the
  mapping, which is still mapped.
\<close>

definition same_but_shadow :: "PlyVideoBuffer \<Rightarrow> PlyVideoBuffer \<Rightarrow> bool" where
  "same_but_shadow b b' \<longleftrightarrow>
     b' = b\<lparr>shadow_buffer := shadow_buffer b'\<rparr> \<and>
     length (shadow_buffer b') = length (shadow_buffer b)"

text \<open>
  The state of an open buffer between two calls. \<^verbatim>\<open>ply_video_buffer_open\<close> maps the
  device and allocates one shadow pixel per visible pixel; the area to flush starts
  as \<open>(0, 0, 0, 0)\<close> (\<^verbatim>\<open>calloc\<close> in \<^verbatim>\<open>ply_video_buffer_new\<close>), a flush resets it to that,
  and a draw call inside the visible area keeps its origin at 0 and its size within
  the visible size (\<open>buffer_ok_after_draw\<close> below).
\<close>

definition buffer_ok :: "PlyVideoBuffer \<Rightarrow> bool" where
  "buffer_ok b \<longleftrightarrow>
     ply_video_buffer_device_is_open b \<and>
     length (shadow_buffer b) = area_width (area b) * area_height (area b) \<and>
     area_x (area_to_flush b) = 0 \<and> area_y (area_to_flush b) = 0 \<and>
     area_width (area_to_flush b) \<le> area_width (area b) \<and>
     area_height (area_to_flush b) \<le> area_height (area b)"

definition same_but_map :: "PlyVideoBuffer \<Rightarrow> PlyVideoBuffer \<Rightarrow> bool" where
  "same_but_map b b' \<longleftrightarrow> b' = b\<lparr>map_address := map_address b'\<rparr> \<and> map_address b' \<noteq> None"

text \<open>
  What \<^verbatim>\<open>msync\<close> returns to the flush of \<open>b\<close>: \<^verbatim>\<open>ply_video_buffer_copy_to_device\<close> calls it
  with the offset of the first pixel of the area to flush and with
  \<^verbatim>\<open>width * height * bytes_per_pixel\<close>.
\<close>

definition msync_of_flush :: "environment \<Rightarrow> PlyVideoBuffer \<Rightarrow> int" where
  "msync_of_flush env b =
     msync_result env
       (area_y (area_to_flush b) * (area_width (area b) * bytes_per_pixel b)
          + area_x (area_to_flush b) * bytes_per_pixel b)
       (area_width (area_to_flush b) * area_height (area_to_flush b) * bytes_per_pixel b)"

text \<open>
  An area that a draw call may be given: it passes the asserts of
  \<^verbatim>\<open>ply_video_buffer_add_area_to_flush_area\<close> and all its pixels are visible, which the
  program leaves to the caller. \<open>pixel_in_area a x y\<close>: the pixel in column \<open>x\<close> and row
  \<open>y\<close> belongs to \<open>a\<close>.
\<close>

definition area_in_buffer :: "PlyVideoBuffer \<Rightarrow> PlyVideoBufferArea \<Rightarrow> bool" where
  "area_in_buffer b a \<longleftrightarrow>
     area_x (area b) \<le> area_x a \<and> area_y (area b) \<le> area_y a \<and>
     area_x a < area_width (area b) \<and> area_y a < area_height (area b) \<and>
     area_x a + area_width a \<le> area_width (area b) \<and>
     area_y a + area_height a \<le> area_height (area b)"

definition pixel_in_area :: "PlyVideoBufferArea \<Rightarrow> nat \<Rightarrow> nat \<Rightarrow> bool" where
  "pixel_in_area a x y \<longleftrightarrow>
     area_x a \<le> x \<and> x < area_x a + area_width a \<and>
     area_y a \<le> y \<and> y < area_y a + area_height a"

text \<open>
  Reading a channel back from a device pixel. The program has no such function
  (device pixels are never read back); this one follows the words of the spec: take
  the \<open>bits\<close> stored bits at \<open>position\<close> and shift them up to the high bits of a byte.
  \<open>truncated_channel bits v\<close> is the spec's \<^verbatim>\<open>v & ~((1 << (8 - w)) - 1)\<close>.
\<close>

definition device_channel_to_byte :: "u32 \<Rightarrow> u32 \<Rightarrow> u32 \<Rightarrow> u8" where
  "device_channel_to_byte position bits device_pixel_value =
     push_bit (8 - unat bits)
       (ucast (take_bit (unat bits) (drop_bit (unat position) device_pixel_value)) :: u8)"

definition truncated_channel :: "u32 \<Rightarrow> u8 \<Rightarrow> u8" where
  "truncated_channel bits v = v AND NOT (push_bit (8 - unat bits) 1 - 1)"

text \<open>
  A channel lies in the device word when it is at most 8 bits wide and ends at or
  below bit 32; two channels are apart when their bit ranges do not meet (a channel
  of width 0 has no bits and is apart from every channel). A layout
  is well formed when all four channels lie in the word and are pairwise apart.
\<close>

definition channel_in_word :: "u32 \<Rightarrow> u32 \<Rightarrow> bool" where
  "channel_in_word position bits \<longleftrightarrow> unat bits \<le> 8 \<and> unat position + unat bits \<le> 32"

definition channels_apart :: "u32 \<Rightarrow> u32 \<Rightarrow> u32 \<Rightarrow> u32 \<Rightarrow> bool" where
  "channels_apart position bits position' bits' \<longleftrightarrow>
     unat bits = 0 \<or> unat bits' = 0 \<or>
     unat position + unat bits \<le> unat position' \<or> unat position' + unat bits' \<le> unat position"

definition device_layout_ok :: "PlyVideoBuffer \<Rightarrow> bool" where
  "device_layout_ok b \<longleftrightarrow>
     channel_in_word (alpha_bit_position b) (bits_for_alpha b) \<and>
     channel_in_word (red_bit_position b) (bits_for_red b) \<and>
     channel_in_word (green_bit_position b) (bits_for_green b) \<and>
     channel_in_word (blue_bit_position b) (bits_for_blue b) \<and>
     channels_apart (alpha_bit_position b) (bits_for_alpha b) (red_bit_position b) (bits_for_red b) \<and>
     channels_apart (alpha_bit_position b) (bits_for_alpha b) (green_bit_position b) (bits_for_green b) \<and>
     channels_apart (alpha_bit_position b) (bits_for_alpha b) (blue_bit_position b) (bits_for_blue b) \<and>
     channels_apart (red_bit_position b) (bits_for_red b) (green_bit_position b) (bits_for_green b) \<and>
     channels_apart (red_bit_position b) (bits_for_red b) (blue_bit_position b) (bits_for_blue b) \<and>
     channels_apart (green_bit_position b) (bits_for_green b) (blue_bit_position b) (bits_for_blue b)"

subsection \<open>Example devices\<close>

text \<open>
  Two environments: in one \<^verbatim>\<open>msync\<close> returns 0, in the other -1. In both, the bytes next
  to the local \<^verbatim>\<open>device_pixel_value\<close> are \<^verbatim>\<open>0xAA\<close>.
\<close>

definition example_environment :: environment where
  "example_environment = \<lparr>msync_result = (\<lambda>start_offset size. 0), beyond_pixel = (\<lambda>k. 0xAA)\<rparr>"

definition failing_environment :: environment where
  "failing_environment = \<lparr>msync_result = (\<lambda>start_offset size. - 1), beyond_pixel = (\<lambda>k. 0xAA)\<rparr>"

text \<open>
  An open device of two by two pixels with 4 bytes per pixel, the channels where the
  canonical pixel has them, all device bytes 0, four different shadow pixels and
  nothing to flush.
\<close>

definition example_buffer :: PlyVideoBuffer where
  "example_buffer = \<lparr>device_fd = 3, map_address = Some (\<lambda>address. 0), map_size = 16,
     shadow_buffer = [0xFF000001, 0xFF000002, 0xFF000003, 0xFF000004],
     red_bit_position = 16, green_bit_position = 8, blue_bit_position = 0, alpha_bit_position = 24,
     bits_for_red = 8, bits_for_green = 8, bits_for_blue = 8, bits_for_alpha = 8,
     bits_per_pixel = 32, bytes_per_pixel = 4,
     area = \<lparr>area_x = 0, area_y = 0, area_width = 2, area_height = 2\<rparr>,
     area_to_flush = \<lparr>area_x = 0, area_y = 0, area_width = 0, area_height = 0\<rparr>,
     is_paused = False\<rparr>"

text \<open>The same device with its first row waiting to be flushed, and that state paused.\<close>

definition dirty_buffer :: PlyVideoBuffer where
  "dirty_buffer = example_buffer\<lparr>
     area_to_flush := \<lparr>area_x = 0, area_y = 0, area_width = 2, area_height = 1\<rparr>\<rparr>"

definition paused_buffer :: PlyVideoBuffer where
  "paused_buffer = dirty_buffer\<lparr>is_paused := True\<rparr>"

text \<open>
  A device that reports every colour at offset 0 with 8 bits and no alpha, as a
  palette or greyscale mode of a frame buffer does.
\<close>

definition pseudocolor_buffer :: PlyVideoBuffer where
  "pseudocolor_buffer = example_buffer\<lparr>
     red_bit_position := 0, green_bit_position := 0, blue_bit_position := 0,
     alpha_bit_position := 0,
     bits_for_red := 8, bits_for_green := 8, bits_for_blue := 8, bits_for_alpha := 0,
     bits_per_pixel := 8, bytes_per_pixel := 1\<rparr>"

text \<open>A 16 bit device: red 5 bits at 11, green 6 bits at 5, blue 5 bits at 0, no alpha.\<close>

definition rgb565_buffer :: PlyVideoBuffer where
  "rgb565_buffer = example_buffer\<lparr>
     red_bit_position := 11, green_bit_position := 5, blue_bit_position := 0,
     alpha_bit_position := 0,
     bits_for_red := 5, bits_for_green := 6, bits_for_blue := 5, bits_for_alpha := 0,
     bits_per_pixel := 16, bytes_per_pixel := 2\<rparr>"

section \<open>Lemmas\<close>

lemma double_to_int_eq_0: "double_to_int d = 0 \<longleftrightarrow> - 1 < d \<and> d < 1"
  by (auto simp: double_to_int_def floor_eq_iff ceiling_eq_iff)

lemma DBL_MIN_bounds: "0 < DBL_MIN" "DBL_MIN < 1"
proof -
  show "0 < DBL_MIN" unfolding DBL_MIN_def by (rule divide_pos_pos) simp_all
  have "(1::real) < 2 ^ 1022" by (rule one_less_power) simp_all
  then show "DBL_MIN < 1" unfolding DBL_MIN_def by (simp add: divide_less_eq del: power_numeral)
qed

lemma abs_int_le_DBL_MIN: "real_of_int \<bar>n\<bar> \<le> DBL_MIN \<longleftrightarrow> n = 0"
proof
  assume "real_of_int \<bar>n\<bar> \<le> DBL_MIN"
  with DBL_MIN_bounds(2) have "real_of_int \<bar>n\<bar> < 1" by linarith
  then have "\<bar>n\<bar> < 1" by linarith
  then show "n = 0" by simp
next
  assume "n = 0"
  with DBL_MIN_bounds(1) show "real_of_int \<bar>n\<bar> \<le> DBL_MIN" by simp
qed

lemma abs_alpha_minus_1_le_DBL_MIN_iff:
  "abs_alpha_minus_1_le_DBL_MIN alpha \<longleftrightarrow> 0 < alpha \<and> alpha < 2"
  unfolding abs_alpha_minus_1_le_DBL_MIN_def abs_int_le_DBL_MIN double_to_int_eq_0 by auto

lemma same_but_shadow_refl: "same_but_shadow b b"
  by (simp add: same_but_shadow_def)

lemma same_but_shadow_trans:
  "same_but_shadow b b1 \<Longrightarrow> same_but_shadow b1 b2 \<Longrightarrow> same_but_shadow b b2"
  by (cases b; cases b1; cases b2) (simp add: same_but_shadow_def)

lemma same_but_shadow_fields:
  assumes "same_but_shadow b b'"
  shows "area b' = area b" "area_to_flush b' = area_to_flush b"
    "map_address b' = map_address b" "is_paused b' = is_paused b"
    "device_fd b' = device_fd b"
    "length (shadow_buffer b') = length (shadow_buffer b)"
  using assms by (cases b; cases b'; simp add: same_but_shadow_def)+

lemma for_loop_append:
  "for_loop (xs @ ys) body s =
     (case for_loop xs body s of Inl f \<Rightarrow> Inl f | Inr s' \<Rightarrow> for_loop ys body s')"
  by (induction xs arbitrary: s) (auto split: sum.splits)

lemma for_loop_preserves:
  assumes "P s"
    and "\<And>i s. i \<in> set xs \<Longrightarrow> P s \<Longrightarrow> \<exists>s'. body i s = Inr s' \<and> P s'"
  shows "\<exists>s'. for_loop xs body s = Inr s' \<and> P s'"
  using assms
proof (induction xs arbitrary: s)
  case Nil
  then show ?case by simp
next
  case (Cons i xs)
  from Cons.prems obtain s1 where s1: "body i s = Inr s1" "P s1"
    by (meson list.set_intros(1))
  have "\<exists>s'. for_loop xs body s1 = Inr s' \<and> P s'"
    by (rule Cons.IH [OF s1(2)]) (simp add: Cons.prems(2))
  with s1 show ?case by simp
qed

lemma set_value_at_pixel_in_range:
  assumes "y * area_width (area b) + x < length (shadow_buffer b)"
  shows "ply_video_buffer_set_value_at_pixel b x y v =
    Inr (b\<lparr>shadow_buffer := (shadow_buffer b)[y * area_width (area b) + x := v]\<rparr>)"
  using assms by (simp add: ply_video_buffer_set_value_at_pixel_def)

lemma blend_value_at_pixel_in_range:
  assumes "y * area_width (area b) + x < length (shadow_buffer b)"
  shows "ply_video_buffer_blend_value_at_pixel b x y v =
    Inr (b\<lparr>shadow_buffer := (shadow_buffer b)[y * area_width (area b) + x :=
      blend_two_pixel_values v (shadow_buffer b ! (y * area_width (area b) + x))]\<rparr>)"
  using assms
  by (simp add: ply_video_buffer_blend_value_at_pixel_def ply_video_buffer_get_value_at_pixel_def
      ply_video_buffer_set_value_at_pixel_def)

lemma same_but_shadow_update:
  "same_but_shadow b s \<Longrightarrow> same_but_shadow b (s\<lparr>shadow_buffer := (shadow_buffer s)[i := v]\<rparr>)"
  by (cases b; cases s) (simp add: same_but_shadow_def)

lemma pixel_index_in_range:
  fixes W H x y :: nat
  assumes "x < W" "y < H"
  shows "y * W + x < W * H"
proof -
  have "y * W + x < y * W + W" using assms(1) by simp
  also have "\<dots> = (Suc y) * W" by simp
  also have "\<dots> \<le> H * W" using assms(2) by (intro mult_le_mono1) simp
  finally show ?thesis by (simp add: mult.commute)
qed

lemma row_in_range:
  fixes W H x0 w y :: nat
  assumes "x0 + w \<le> W" "y < H"
  shows "y * W + x0 + w \<le> W * H"
proof -
  have "y * W + x0 + w \<le> y * W + W" using assms(1) by simp
  also have "\<dots> = (Suc y) * W" by simp
  also have "\<dots> \<le> H * W" using assms(2) by (intro mult_le_mono1) simp
  finally show ?thesis by (simp add: mult.commute)
qed

lemma set_row_result:
  assumes "row * area_width (area b) + x0 + w \<le> length (shadow_buffer b)"
  shows "\<exists>b'. for_loop [x0 ..< x0 + w]
            (\<lambda>column buffer. ply_video_buffer_set_value_at_pixel buffer column row v) b = Inr b'
          \<and> same_but_shadow b b'
          \<and> (\<forall>j < length (shadow_buffer b). shadow_buffer b' ! j =
               (if row * area_width (area b) + x0 \<le> j \<and> j < row * area_width (area b) + x0 + w
                then v else shadow_buffer b ! j))"
  using assms
proof (induction w)
  case 0
  then show ?case by (auto simp: same_but_shadow_refl)
next
  case (Suc w)
  let ?body = "\<lambda>column buffer. ply_video_buffer_set_value_at_pixel buffer column row v"
  let ?W = "area_width (area b)"
  from Suc obtain b1 where b1: "for_loop [x0 ..< x0 + w] ?body b = Inr b1"
    "same_but_shadow b b1"
    "\<forall>j < length (shadow_buffer b). shadow_buffer b1 ! j =
       (if row * ?W + x0 \<le> j \<and> j < row * ?W + x0 + w then v else shadow_buffer b ! j)"
    by force
  let ?i = "row * ?W + (x0 + w)"
  let ?b2 = "b1\<lparr>shadow_buffer := (shadow_buffer b1)[?i := v]\<rparr>"
  have in_range: "?i < length (shadow_buffer b1)"
    using Suc.prems same_but_shadow_fields(6) [OF b1(2)] by simp
  have step: "?body (x0 + w) b1 = Inr ?b2"
    using set_value_at_pixel_in_range [where x = "x0 + w" and y = row and b = b1 and v = v] in_range
    by (simp add: same_but_shadow_fields(1) [OF b1(2)])
  have loop: "for_loop [x0 ..< x0 + Suc w] ?body b = Inr ?b2"
    by (simp add: for_loop_append b1(1) step)
  have frame: "same_but_shadow b ?b2"
    by (rule same_but_shadow_update [OF b1(2)])
  have pixels: "\<forall>j < length (shadow_buffer b). shadow_buffer ?b2 ! j =
       (if row * ?W + x0 \<le> j \<and> j < row * ?W + x0 + Suc w then v else shadow_buffer b ! j)"
  proof (intro allI impI)
    fix j assume j: "j < length (shadow_buffer b)"
    show "shadow_buffer ?b2 ! j =
       (if row * ?W + x0 \<le> j \<and> j < row * ?W + x0 + Suc w then v else shadow_buffer b ! j)"
    proof (cases "j = ?i")
      case True
      then show ?thesis using in_range by simp
    next
      case False
      then have "shadow_buffer ?b2 ! j = shadow_buffer b1 ! j" by simp
      also have "\<dots> = (if row * ?W + x0 \<le> j \<and> j < row * ?W + x0 + w then v else shadow_buffer b ! j)"
        using b1(3) j by blast
      finally show ?thesis using False by auto
    qed
  qed
  from loop frame pixels show ?case by blast
qed

lemma set_rows_result:
  assumes "x0 + w \<le> area_width (area b)" "y0 + h \<le> area_height (area b)"
    and "length (shadow_buffer b) = area_width (area b) * area_height (area b)"
  shows "\<exists>b'. for_loop [y0 ..< y0 + h] (\<lambda>row.
            for_loop [x0 ..< x0 + w] (\<lambda>column buffer.
              ply_video_buffer_set_value_at_pixel buffer column row v)) b = Inr b'
          \<and> same_but_shadow b b'
          \<and> (\<forall>row column. y0 \<le> row \<and> row < y0 + h \<and> x0 \<le> column \<and> column < x0 + w \<longrightarrow>
                shadow_buffer b' ! (row * area_width (area b) + column) = v)"
  using assms(2)
proof (induction h)
  case 0
  then show ?case by (auto simp: same_but_shadow_refl)
next
  case (Suc h)
  let ?W = "area_width (area b)"
  let ?inner = "\<lambda>row. for_loop [x0 ..< x0 + w] (\<lambda>column buffer.
              ply_video_buffer_set_value_at_pixel buffer column row v)"
  from Suc obtain b1 where b1: "for_loop [y0 ..< y0 + h] ?inner b = Inr b1"
    "same_but_shadow b b1"
    "\<forall>row column. y0 \<le> row \<and> row < y0 + h \<and> x0 \<le> column \<and> column < x0 + w \<longrightarrow>
       shadow_buffer b1 ! (row * ?W + column) = v"
    by force
  have fields: "area b1 = area b" "length (shadow_buffer b1) = length (shadow_buffer b)"
    using same_but_shadow_fields [OF b1(2)] by simp_all
  have "(y0 + h) * ?W + x0 + w \<le> ?W * area_height (area b)"
    using assms(1) Suc.prems by (intro row_in_range) simp_all
  then have "(y0 + h) * area_width (area b1) + x0 + w \<le> length (shadow_buffer b1)"
    using fields assms(3) by simp
  from set_row_result [OF this, of v] obtain b2 where b2:
    "?inner (y0 + h) b1 = Inr b2" "same_but_shadow b1 b2"
    "\<forall>j < length (shadow_buffer b1). shadow_buffer b2 ! j =
       (if (y0 + h) * ?W + x0 \<le> j \<and> j < (y0 + h) * ?W + x0 + w then v else shadow_buffer b1 ! j)"
    unfolding fields by blast
  have loop: "for_loop [y0 ..< y0 + Suc h] ?inner b = Inr b2"
    by (simp add: for_loop_append b1(1) b2(1))
  have frame: "same_but_shadow b b2"
    by (rule same_but_shadow_trans [OF b1(2) b2(2)])
  have pixels: "shadow_buffer b2 ! (row * ?W + column) = v"
    if rc: "y0 \<le> row" "row < y0 + Suc h" "x0 \<le> column" "column < x0 + w" for row column
  proof -
    have "column < ?W" "row < area_height (area b)"
      using rc assms(1) Suc.prems by simp_all
    then have "row * ?W + column < ?W * area_height (area b)"
      by (rule pixel_index_in_range)
    then have j: "row * ?W + column < length (shadow_buffer b1)"
      using fields assms(3) by simp
    show ?thesis
    proof (cases "row = y0 + h")
      case True
      then show ?thesis using b2(3) j rc by simp
    next
      case False
      then have "shadow_buffer b1 ! (row * ?W + column) = v"
        using b1(3) rc by simp
      then show ?thesis using b2(3) j by simp
    qed
  qed
  from loop frame pixels show ?case by blast
qed

lemma set_area_result:
  assumes "area_x a + area_width a \<le> area_width (area b)"
    and "area_y a + area_height a \<le> area_height (area b)"
    and "length (shadow_buffer b) = area_width (area b) * area_height (area b)"
  shows "\<exists>b'. ply_video_buffer_set_area_to_pixel_value b a v = Inr b'
          \<and> same_but_shadow b b'
          \<and> (\<forall>row column. pixel_in_area a column row \<longrightarrow>
                shadow_buffer b' ! (row * area_width (area b) + column) = v)"
  using set_rows_result [OF assms, of v]
  unfolding ply_video_buffer_set_area_to_pixel_value_def pixel_in_area_def
  by (elim exE conjE, intro exI conjI) (assumption, assumption, blast)

lemma pixel_loops_total:
  assumes frame: "same_but_shadow b s"
    and body: "\<And>row column s. row \<in> set rows \<Longrightarrow> column \<in> set columns \<Longrightarrow> same_but_shadow b s \<Longrightarrow>
       \<exists>s'. body row column s = Inr s' \<and> same_but_shadow b s'"
  shows "\<exists>s'. for_loop rows (\<lambda>row. for_loop columns (body row)) s = Inr s' \<and> same_but_shadow b s'"
proof (rule for_loop_preserves [where P = "same_but_shadow b", OF frame])
  fix row s
  assume "row \<in> set rows" "same_but_shadow b s"
  then show "\<exists>s'. for_loop columns (body row) s = Inr s' \<and> same_but_shadow b s'"
    by (intro for_loop_preserves [where P = "same_but_shadow b"]) (auto intro: body)
qed

lemma blend_area_total:
  assumes "area_x a + area_width a \<le> area_width (area b)"
    and "area_y a + area_height a \<le> area_height (area b)"
    and "length (shadow_buffer b) = area_width (area b) * area_height (area b)"
  shows "\<exists>b'. ply_video_buffer_blend_area_with_pixel_value b a v = Inr b' \<and> same_but_shadow b b'"
  unfolding ply_video_buffer_blend_area_with_pixel_value_def
proof (rule pixel_loops_total [OF same_but_shadow_refl])
  fix row column s
  assume rc: "row \<in> set [area_y a ..< area_y a + area_height a]"
    "column \<in> set [area_x a ..< area_x a + area_width a]"
    and s: "same_but_shadow b s"
  have fields: "area s = area b" "length (shadow_buffer s) = length (shadow_buffer b)"
    using same_but_shadow_fields [OF s] by simp_all
  have "column < area_width (area b)" "row < area_height (area b)"
    using rc assms(1,2) by simp_all
  then have "row * area_width (area b) + column < area_width (area b) * area_height (area b)"
    by (rule pixel_index_in_range)
  then have "row * area_width (area s) + column < length (shadow_buffer s)"
    using fields assms(3) by simp
  from blend_value_at_pixel_in_range [OF this, of v]
  show "\<exists>s'. ply_video_buffer_blend_value_at_pixel s column row v = Inr s' \<and> same_but_shadow b s'"
    using same_but_shadow_update [OF s] by simp
qed

lemma same_but_map_refl: "map_address b \<noteq> None \<Longrightarrow> same_but_map b b"
  by (simp add: same_but_map_def)

lemma same_but_map_fields:
  assumes "same_but_map b b'"
  shows "area b' = area b" "area_to_flush b' = area_to_flush b"
    "shadow_buffer b' = shadow_buffer b" "is_paused b' = is_paused b"
    "device_fd b' = device_fd b" "map_address b' \<noteq> None"
    "bytes_per_pixel b' = bytes_per_pixel b" "bits_per_pixel b' = bits_per_pixel b"
  using assms by (cases b; cases b'; simp add: same_but_map_def)+

lemma same_but_map_update:
  "same_but_map b s \<Longrightarrow> same_but_map b (s\<lparr>map_address := Some m\<rparr>)"
  by (cases b; cases s) (simp add: same_but_map_def)

lemma copy_to_device_result:
  assumes "map_address b \<noteq> None"
    and "width * (y + height) + x \<le> length (shadow_buffer b)"
  shows "\<exists>b'. ply_video_buffer_copy_to_device env b x y width height =
            Inr (\<not> msync_result env
                      (y * (area_width (area b) * bytes_per_pixel b) + x * bytes_per_pixel b)
                      (width * height * bytes_per_pixel b) < 0, b')
          \<and> same_but_map b b'"
proof -
  let ?body = "\<lambda>row column buffer.
               if width * row + column < length (shadow_buffer buffer) then
                 (let pixel_value = shadow_buffer buffer ! (width * row + column);
                      device_pixel_value =
                        ply_video_buffer_pixel_value_to_device_pixel_value buffer pixel_value;
                      offset = row * (area_width (area b) * bytes_per_pixel b)
                        + column * bytes_per_pixel buffer
                  in case map_address buffer of
                       None \<Rightarrow> Inl MemoryFault
                     | Some memory \<Rightarrow>
                         Inr (buffer\<lparr>map_address := Some (memcpy_pixel memory offset env
                                device_pixel_value (bits_per_pixel buffer))\<rparr>))
               else Inl MemoryFault"
  have "\<exists>b'. for_loop [y ..< y + height] (\<lambda>row. for_loop [x ..< x + width] (?body row)) b = Inr b'
      \<and> same_but_map b b'"
  proof (rule for_loop_preserves [where P = "same_but_map b", OF same_but_map_refl [OF assms(1)]])
    fix row s
    assume row: "row \<in> set [y ..< y + height]" and s: "same_but_map b s"
    show "\<exists>s'. for_loop [x ..< x + width] (?body row) s = Inr s' \<and> same_but_map b s'"
    proof (rule for_loop_preserves [where P = "same_but_map b", OF s])
      fix column s
      assume column: "column \<in> set [x ..< x + width]" and s: "same_but_map b s"
      have "Suc row \<le> y + height" using row by simp
      then have "width * Suc row \<le> width * (y + height)" by (rule mult_le_mono2)
      then have "width * row + column < length (shadow_buffer s)"
        using column assms(2) same_but_map_fields(3) [OF s] by simp
      moreover obtain memory where "map_address s = Some memory"
        using same_but_map_fields(6) [OF s] by blast
      ultimately show "\<exists>s'. ?body row column s = Inr s' \<and> same_but_map b s'"
        using same_but_map_update [OF s] by (simp add: Let_def)
    qed
  qed
  then obtain b' where b': "for_loop [y ..< y + height]
      (\<lambda>row. for_loop [x ..< x + width] (?body row)) b = Inr b'" "same_but_map b b'"
    by blast
  have "ply_video_buffer_copy_to_device env b x y width height =
      (if msync_result env
            (y * (area_width (area b) * bytes_per_pixel b) + x * bytes_per_pixel b)
            (width * height * bytes_per_pixel b) < 0
       then Inr (False, b') else Inr (True, b'))"
    using b'(1) by (simp add: ply_video_buffer_copy_to_device_def Let_def)
  then show ?thesis using b'(2) by auto
qed

lemma buffer_ok_readable:
  assumes "buffer_ok b"
  shows "map_address b \<noteq> None"
    and "area_width (area_to_flush b) * (area_y (area_to_flush b) + area_height (area_to_flush b))
         + area_x (area_to_flush b) \<le> length (shadow_buffer b)"
proof -
  show "map_address b \<noteq> None"
    using assms by (simp add: buffer_ok_def ply_video_buffer_device_is_open_def)
  have "area_width (area_to_flush b) * area_height (area_to_flush b)
      \<le> area_width (area b) * area_height (area b)"
    using assms by (intro mult_le_mono) (simp_all add: buffer_ok_def)
  then show "area_width (area_to_flush b) * (area_y (area_to_flush b) + area_height (area_to_flush b))
         + area_x (area_to_flush b) \<le> length (shadow_buffer b)"
    using assms by (simp add: buffer_ok_def)
qed

lemma flush_result:
  assumes "\<not> is_paused b" "buffer_ok b"
  shows "\<exists>b1. same_but_map b b1 \<and>
     ply_video_buffer_flush env b =
       (if msync_of_flush env b < 0 then Inr (False, b1)
        else Inr (True, b1\<lparr>area_to_flush :=
               \<lparr>area_x = 0, area_y = 0, area_width = 0, area_height = 0\<rparr>\<rparr>))"
proof -
  from copy_to_device_result [OF buffer_ok_readable [OF assms(2)], of env]
  obtain b1 where b1: "ply_video_buffer_copy_to_device env b
      (area_x (area_to_flush b)) (area_y (area_to_flush b))
      (area_width (area_to_flush b)) (area_height (area_to_flush b)) =
      Inr (\<not> msync_of_flush env b < 0, b1)" "same_but_map b b1"
    unfolding msync_of_flush_def by blast
  have "ply_video_buffer_flush env b =
       (if msync_of_flush env b < 0 then Inr (False, b1)
        else Inr (True, b1\<lparr>area_to_flush :=
               \<lparr>area_x = 0, area_y = 0, area_width = 0, area_height = 0\<rparr>\<rparr>))"
    using assms(1) b1(1) by (simp add: ply_video_buffer_flush_def)
  with b1(2) show ?thesis by blast
qed

lemma flush_paused: "is_paused b \<Longrightarrow> ply_video_buffer_flush env b = Inr (True, b)"
  by (simp add: ply_video_buffer_flush_def)

lemma same_but_map_buffer_ok: "same_but_map b b' \<Longrightarrow> buffer_ok b \<Longrightarrow> buffer_ok b'"
  using same_but_map_fields [of b b']
  by (simp add: buffer_ok_def ply_video_buffer_device_is_open_def)

lemma same_but_map_msync: "same_but_map b b' \<Longrightarrow> msync_of_flush env b' = msync_of_flush env b"
  using same_but_map_fields [of b b'] by (simp add: msync_of_flush_def)

lemma for_loop_map_sum:
  assumes "\<And>i s. body i (f s) = map_sum id f (body i s)"
  shows "for_loop xs body (f s) = map_sum id f (for_loop xs body s)"
  by (induction xs arbitrary: s) (auto simp: assms split: sum.splits)

lemma set_area_is_paused:
  "ply_video_buffer_set_area_to_pixel_value (b\<lparr>is_paused := p\<rparr>) a v =
     map_sum id (\<lambda>s. s\<lparr>is_paused := p\<rparr>) (ply_video_buffer_set_area_to_pixel_value b a v)"
  unfolding ply_video_buffer_set_area_to_pixel_value_def
  by (intro for_loop_map_sum) (simp add: ply_video_buffer_set_value_at_pixel_def)

lemma blend_area_is_paused:
  "ply_video_buffer_blend_area_with_pixel_value (b\<lparr>is_paused := p\<rparr>) a v =
     map_sum id (\<lambda>s. s\<lparr>is_paused := p\<rparr>) (ply_video_buffer_blend_area_with_pixel_value b a v)"
  unfolding ply_video_buffer_blend_area_with_pixel_value_def
  by (intro for_loop_map_sum)
    (simp add: ply_video_buffer_blend_value_at_pixel_def ply_video_buffer_set_value_at_pixel_def
      ply_video_buffer_get_value_at_pixel_def)

lemma add_area_result:
  assumes "area_in_buffer b a"
  shows "ply_video_buffer_add_area_to_flush_area b a =
    Inr (b\<lparr>area_to_flush :=
        \<lparr>area_x = min (area_x (area_to_flush b)) (area_x a),
         area_y = min (area_y (area_to_flush b)) (area_y a),
         area_width = max (area_width (area_to_flush b)) (area_width a),
         area_height = max (area_height (area_to_flush b)) (area_height a)\<rparr>\<rparr>)"
  using assms by (simp add: ply_video_buffer_add_area_to_flush_area_def area_in_buffer_def)

lemma buffer_ok_after_draw:
  assumes "buffer_ok b" "area_in_buffer b a" "same_but_shadow b s"
  shows "buffer_ok (s\<lparr>area_to_flush :=
        \<lparr>area_x = min (area_x (area_to_flush b)) (area_x a),
         area_y = min (area_y (area_to_flush b)) (area_y a),
         area_width = max (area_width (area_to_flush b)) (area_width a),
         area_height = max (area_height (area_to_flush b)) (area_height a)\<rparr>, is_paused := p\<rparr>)"
  using assms same_but_shadow_fields [OF assms(3)]
  by (simp add: buffer_ok_def area_in_buffer_def ply_video_buffer_device_is_open_def)

lemma fill_with_color_steps:
  assumes "buffer_ok b" "area_in_buffer b a"
    and "a = (case area_arg of None \<Rightarrow> area b | Some given \<Rightarrow> given)"
  shows "\<exists>s. same_but_shadow b s
    \<and> (if abs_alpha_minus_1_le_DBL_MIN alpha
        then ply_video_buffer_set_area_to_pixel_value b a
               (PLY_VIDEO_BUFFER_COLOR_TO_PIXEL_VALUE (red * alpha) (green * alpha) (blue * alpha) alpha)
        else ply_video_buffer_blend_area_with_pixel_value b a
               (PLY_VIDEO_BUFFER_COLOR_TO_PIXEL_VALUE (red * alpha) (green * alpha) (blue * alpha) alpha))
      = Inr s
    \<and> (\<forall>p env. ply_video_buffer_fill_with_color env (b\<lparr>is_paused := p\<rparr>) area_arg red green blue alpha =
          ply_video_buffer_flush env (s\<lparr>area_to_flush :=
            \<lparr>area_x = min (area_x (area_to_flush b)) (area_x a),
             area_y = min (area_y (area_to_flush b)) (area_y a),
             area_width = max (area_width (area_to_flush b)) (area_width a),
             area_height = max (area_height (area_to_flush b)) (area_height a)\<rparr>, is_paused := p\<rparr>))"
proof -
  let ?v = "PLY_VIDEO_BUFFER_COLOR_TO_PIXEL_VALUE (red * alpha) (green * alpha) (blue * alpha) alpha"
  let ?loops = "\<lambda>b. if abs_alpha_minus_1_le_DBL_MIN alpha
        then ply_video_buffer_set_area_to_pixel_value b a ?v
        else ply_video_buffer_blend_area_with_pixel_value b a ?v"
  have bounds: "area_x a + area_width a \<le> area_width (area b)"
    "area_y a + area_height a \<le> area_height (area b)"
    "length (shadow_buffer b) = area_width (area b) * area_height (area b)"
    using assms(1,2) by (simp_all add: buffer_ok_def area_in_buffer_def)
  obtain s where s: "?loops b = Inr s" "same_but_shadow b s"
    using set_area_result [OF bounds, of ?v] blend_area_total [OF bounds, of ?v]
    by (cases "abs_alpha_minus_1_le_DBL_MIN alpha") auto
  have paused: "?loops (b\<lparr>is_paused := p\<rparr>) = Inr (s\<lparr>is_paused := p\<rparr>)" for p
    using s(1) by (simp add: set_area_is_paused blend_area_is_paused split: if_splits)
  have "area_in_buffer (s\<lparr>is_paused := p\<rparr>) a" for p
    using assms(2) same_but_shadow_fields(1) [OF s(2)] by (simp add: area_in_buffer_def)
  from add_area_result [OF this]
  have add: "ply_video_buffer_add_area_to_flush_area (s\<lparr>is_paused := p\<rparr>) a =
      Inr (s\<lparr>area_to_flush :=
        \<lparr>area_x = min (area_x (area_to_flush b)) (area_x a),
         area_y = min (area_y (area_to_flush b)) (area_y a),
         area_width = max (area_width (area_to_flush b)) (area_width a),
         area_height = max (area_height (area_to_flush b)) (area_height a)\<rparr>, is_paused := p\<rparr>)" for p
    using same_but_shadow_fields(2) [OF s(2)] by simp
  have is_open: "ply_video_buffer_device_is_open (b\<lparr>is_paused := p\<rparr>)" for p
    using assms(1) by (simp add: buffer_ok_def ply_video_buffer_device_is_open_def)
  have a_eq: "(case area_arg of None \<Rightarrow> area (b\<lparr>is_paused := p\<rparr>) | Some given \<Rightarrow> given) = a" for p
    using assms(3) by (simp split: option.splits)
  have "ply_video_buffer_fill_with_color env (b\<lparr>is_paused := p\<rparr>) area_arg red green blue alpha =
          ply_video_buffer_flush env (s\<lparr>area_to_flush :=
            \<lparr>area_x = min (area_x (area_to_flush b)) (area_x a),
             area_y = min (area_y (area_to_flush b)) (area_y a),
             area_width = max (area_width (area_to_flush b)) (area_width a),
             area_height = max (area_height (area_to_flush b)) (area_height a)\<rparr>, is_paused := p\<rparr>)" for p env
    unfolding ply_video_buffer_fill_with_color_def Let_def a_eq
    by (simp only: is_open paused add not_True_eq_False if_False sum.case)
  with s show ?thesis by blast
qed

lemma flush_total:
  assumes "buffer_ok b"
  shows "\<exists>ok b'. ply_video_buffer_flush env b = Inr (ok, b')
    \<and> shadow_buffer b' = shadow_buffer b \<and> area b' = area b \<and> is_paused b' = is_paused b"
proof (cases "is_paused b")
  case True
  then show ?thesis by (auto simp: flush_paused)
next
  case False
  from flush_result [OF False assms, of env] obtain b1 where b1: "same_but_map b b1"
    "ply_video_buffer_flush env b =
       (if msync_of_flush env b < 0 then Inr (False, b1)
        else Inr (True, b1\<lparr>area_to_flush :=
               \<lparr>area_x = 0, area_y = 0, area_width = 0, area_height = 0\<rparr>\<rparr>))"
    by blast
  show ?thesis
    using b1(2) same_but_map_fields [OF b1(1)] by (cases "msync_of_flush env b < 0") auto
qed

lemma pixel_in_area_index:
  assumes "area_in_buffer b a" "pixel_in_area a x y"
    and "length (shadow_buffer b) = area_width (area b) * area_height (area b)"
  shows "y * area_width (area b) + x < length (shadow_buffer b)"
proof -
  have "x < area_width (area b)" "y < area_height (area b)"
    using assms(1,2) by (simp_all add: area_in_buffer_def pixel_in_area_def)
  then show ?thesis unfolding assms(3) by (rule pixel_index_in_range)
qed

lemma is_paused_update_same: "is_paused b = p \<Longrightarrow> b\<lparr>is_paused := p\<rparr> = b"
  by (cases b) simp











lemmas model_defs =
  ply_video_buffer_fill_with_color_def ply_video_buffer_device_is_open_def
  ply_video_buffer_set_area_to_pixel_value_def ply_video_buffer_blend_area_with_pixel_value_def
  ply_video_buffer_set_value_at_pixel_def ply_video_buffer_get_value_at_pixel_def
  ply_video_buffer_blend_value_at_pixel_def ply_video_buffer_add_area_to_flush_area_def
  ply_video_buffer_flush_def ply_video_buffer_copy_to_device_def
  ply_video_buffer_pixel_value_to_device_pixel_value_def
  PLY_VIDEO_BUFFER_COLOR_TO_PIXEL_VALUE_def color_channel_to_byte_def
  abs_alpha_minus_1_le_DBL_MIN_iff memcpy_pixel_def pixel_byte_def

lemma channel_field:
  fixes v :: u8
  assumes "w \<le> 8" and "bit (push_bit p (ucast (drop_bit (8 - w) v) :: u32)) k"
  shows "p \<le> k \<and> k < p + w"
proof -
  from assms(2) have k: "p \<le> k" and "bit (ucast (drop_bit (8 - w) v) :: u32) (k - p)"
    by (simp_all add: bit_push_bit_iff)
  then have "bit (drop_bit (8 - w) v) (k - p)"
    by (simp add: bit_ucast_iff)
  then have "bit v (8 - w + (k - p))"
    by (simp only: bit_drop_bit_eq comp_apply)
  then have "8 - w + (k - p) < LENGTH(8)"
    by (rule bit_imp_le_length)
  with assms(1) k show ?thesis by simp
qed

lemma channel_round_trip:
  fixes v :: u8 and others :: u32
  assumes "1 \<le> w" "w \<le> 8" "p + w \<le> 32"
    and others: "\<And>k. p \<le> k \<Longrightarrow> k < p + w \<Longrightarrow> \<not> bit others k"
  shows "push_bit (8 - w) (ucast (take_bit w (drop_bit p
            (push_bit p (ucast (drop_bit (8 - w) v) :: u32) OR others))) :: u8)
         = v AND NOT (push_bit (8 - w) 1 - 1)"
proof -
  have m: "push_bit (8 - w) 1 - 1 = (mask (8 - w) :: u8)"
    by (simp add: mask_eq_exp_minus_1)
  show ?thesis
    unfolding m
  proof (rule bit_eqI)
    fix n
    assume "possible_bit TYPE(u8) n"
    then have n: "n < 8" by simp
    show "bit (push_bit (8 - w) (ucast (take_bit w (drop_bit p
            (push_bit p (ucast (drop_bit (8 - w) v) :: u32) OR others))) :: u8)) n
        \<longleftrightarrow> bit (v AND NOT (mask (8 - w))) n"
    proof (cases "8 - w \<le> n")
      case False
      then show ?thesis by (simp add: bit_simps)
    next
      case True
      then have "p + (n - (8 - w)) < p + w" "p \<le> p + (n - (8 - w))"
        using n assms(2) by simp_all
      then have "\<not> bit others (p + (n - (8 - w)))"
        using others by blast
      then show ?thesis
        using True n assms(1-3) by (auto simp: bit_simps)
    qed
  qed
qed

lemma unat_8_minus:
  fixes bits :: u32
  assumes "unat bits \<le> 8"
  shows "unat (8 - bits) = 8 - unat bits"
proof -
  have "bits \<le> 8" using assms by (simp add: word_le_nat_alt)
  then show ?thesis by (simp add: unat_sub)
qed

lemma channel_not_in_other_field:
  fixes v :: u8
  assumes "channel_in_word position' bits'"
    and "channels_apart position bits position' bits' \<or> channels_apart position' bits' position bits"
    and "unat position \<le> k" "k < unat position + unat bits"
  shows "\<not> bit (push_bit (unat position') (ucast (drop_bit (unat (8 - bits')) v) :: u32)) k"
proof
  assume "bit (push_bit (unat position') (ucast (drop_bit (unat (8 - bits')) v) :: u32)) k"
  then have "bit (push_bit (unat position') (ucast (drop_bit (8 - unat bits') v) :: u32)) k"
    using assms(1) by (simp add: channel_in_word_def unat_8_minus)
  then have "unat position' \<le> k \<and> k < unat position' + unat bits'"
    using assms(1) by (intro channel_field) (simp_all add: channel_in_word_def)
  with assms(2-4) show False
    by (auto simp: channels_apart_def)
qed

lemma device_channel_round_trip:
  fixes v :: u8 and others :: u32
  assumes "1 \<le> unat bits" "channel_in_word position bits"
    and "\<And>k. unat position \<le> k \<Longrightarrow> k < unat position + unat bits \<Longrightarrow> \<not> bit others k"
  shows "device_channel_to_byte position bits
           (push_bit (unat position) (ucast (drop_bit (unat (8 - bits)) v) :: u32) OR others)
         = truncated_channel bits v"
  unfolding device_channel_to_byte_def truncated_channel_def
  using assms channel_round_trip [of "unat bits" "unat position" others v]
  by (simp add: channel_in_word_def unat_8_minus)

lemma round_trip_among_four:
  fixes v c1 c2 c3 :: u8
  assumes "1 \<le> unat bits" "channel_in_word position bits"
    and "channel_in_word p1 w1"
      "channels_apart position bits p1 w1 \<or> channels_apart p1 w1 position bits"
    and "channel_in_word p2 w2"
      "channels_apart position bits p2 w2 \<or> channels_apart p2 w2 position bits"
    and "channel_in_word p3 w3"
      "channels_apart position bits p3 w3 \<or> channels_apart p3 w3 position bits"
  shows "device_channel_to_byte position bits
           (push_bit (unat position) (ucast (drop_bit (unat (8 - bits)) v) :: u32)
            OR (push_bit (unat p1) (ucast (drop_bit (unat (8 - w1)) c1))
                OR push_bit (unat p2) (ucast (drop_bit (unat (8 - w2)) c2))
                OR push_bit (unat p3) (ucast (drop_bit (unat (8 - w3)) c3))))
         = truncated_channel bits v"
proof (rule device_channel_round_trip [OF assms(1,2)])
  fix k
  assume k: "unat position \<le> k" "k < unat position + unat bits"
  show "\<not> bit (push_bit (unat p1) (ucast (drop_bit (unat (8 - w1)) c1) :: u32)
                OR push_bit (unat p2) (ucast (drop_bit (unat (8 - w2)) c2))
                OR push_bit (unat p3) (ucast (drop_bit (unat (8 - w3)) c3))) k"
    using channel_not_in_other_field [OF assms(3,4) k, of c1]
      channel_not_in_other_field [OF assms(5,6) k, of c2]
      channel_not_in_other_field [OF assms(7,8) k, of c3]
    by (simp add: bit_or_iff)
qed

lemma or_four:
  fixes A R G B :: u32
  shows "A OR R OR G OR B = A OR (R OR G OR B)"
    and "A OR R OR G OR B = R OR (A OR G OR B)"
    and "A OR R OR G OR B = G OR (A OR R OR B)"
    and "A OR R OR G OR B = B OR (A OR R OR G)"
  by (simp_all add: ac_simps)

lemma device_pixel_value_eq:
  "ply_video_buffer_pixel_value_to_device_pixel_value b pixel_value =
     push_bit (unat (alpha_bit_position b))
      (ucast (drop_bit (unat (8 - bits_for_alpha b)) (ucast (drop_bit 24 pixel_value) :: u8)) :: u32)
     OR push_bit (unat (red_bit_position b))
      (ucast (drop_bit (unat (8 - bits_for_red b)) (ucast (drop_bit 16 pixel_value AND 0xff) :: u8)))
     OR push_bit (unat (green_bit_position b))
      (ucast (drop_bit (unat (8 - bits_for_green b)) (ucast (drop_bit 8 pixel_value AND 0xff) :: u8)))
     OR push_bit (unat (blue_bit_position b))
      (ucast (drop_bit (unat (8 - bits_for_blue b)) (ucast (pixel_value AND 0xff) :: u8)))"
  unfolding ply_video_buffer_pixel_value_to_device_pixel_value_def Let_def ..

section \<open>The properties\<close>

text \<open>
  C1. The property: the rectangle recorded for flushing after adding a second
  rectangle to a first is their bounding box, computed from the edges. The code at
  two disjoint rectangles does otherwise. With \<open>(0, 0, 1, 1)\<close> waiting to be flushed,
  adding \<open>(1, 1, 1, 1)\<close> records \<open>(0, 0, 1, 1)\<close> again: the minimum of the origins and the
  maximum of the widths and heights. And on the paused two by two device, after
  \<^verbatim>\<open>ply_video_buffer_fill_with_color\<close> on \<open>(0, 0, 1, 1)\<close> and then on \<open>(1, 1, 1, 1)\<close> the
  area to flush is \<open>(0, 0, 1, 1)\<close> both times. The smallest rectangle that covers both
  is \<open>(0, 0, 2, 2)\<close>.
\<close>

theorem add_area_to_flush_area_is_not_the_bounding_box:
  "ply_video_buffer_add_area_to_flush_area
      (example_buffer\<lparr>area_to_flush := \<lparr>area_x = 0, area_y = 0, area_width = 1, area_height = 1\<rparr>\<rparr>)
      \<lparr>area_x = 1, area_y = 1, area_width = 1, area_height = 1\<rparr>
    = Inr (example_buffer\<lparr>area_to_flush :=
        \<lparr>area_x = 0, area_y = 0, area_width = 1, area_height = 1\<rparr>\<rparr>)
   \<and> (case ply_video_buffer_fill_with_color example_environment
            (ply_video_buffer_pause_updates example_buffer)
            (Some \<lparr>area_x = 0, area_y = 0, area_width = 1, area_height = 1\<rparr>) 1 0 0 1 of
        Inl f \<Rightarrow> None
      | Inr (ok, b1) \<Rightarrow>
          (case ply_video_buffer_fill_with_color example_environment b1
                  (Some \<lparr>area_x = 1, area_y = 1, area_width = 1, area_height = 1\<rparr>) 0 0 1 1 of
             Inl f \<Rightarrow> None
           | Inr (ok', b2) \<Rightarrow> Some (area_to_flush b1, area_to_flush b2)))
     = Some (\<lparr>area_x = 0, area_y = 0, area_width = 1, area_height = 1\<rparr>,
             \<lparr>area_x = 0, area_y = 0, area_width = 1, area_height = 1\<rparr>)"
  by (simp add: model_defs ply_video_buffer_pause_updates_def example_buffer_def
      example_environment_def Let_def)

text \<open>
  C2. The property: the blend reads each channel at the same bits of both pixels,
  and a source with alpha 0 leaves the destination unchanged. The code at a fully
  transparent source over the pixel \<^verbatim>\<open>0x00FF0000\<close>, whose
  only set bits are its red channel, bits 16 to 23: \<^verbatim>\<open>blend_two_pixel_values\<close> reads the
  red of the second pixel with \<^verbatim>\<open>(pixel_value_2 >> 26) & 0xff\<close>, which is 0 here, and
  returns 0, not the destination.
\<close>

theorem blend_transparent_source_changes_destination:
  "unat (drop_bit 26 (0x00FF0000 :: u32) AND 0xff) = 0
   \<and> unat (drop_bit 16 (0x00FF0000 :: u32) AND 0xff) = 255
   \<and> blend_two_pixel_values 0 0x00FF0000 = 0"
  by (simp add: blend_two_pixel_values_def PLY_VIDEO_BUFFER_COLOR_TO_PIXEL_VALUE_def
      color_channel_to_byte_def)

text \<open>
  C3. The property: a flush that is not paused writes, for every pixel of the area to
  flush, the converted shadow pixel \<open>row * visible_width + column\<close> in exactly
  \<^verbatim>\<open>bytes_per_pixel\<close> bytes at \<open>row * stride + column * bytes_per_pixel\<close>. The code does
  otherwise on the two by two device with 4 bytes per pixel and the canonical
  layout, all device bytes 0 before: \<^verbatim>\<open>ply_video_buffer_fill_with_color\<close> paints the left
  column \<open>(0, 0, 1, 2)\<close> opaque blue and flushes. The shadow buffer then holds
  \<^verbatim>\<open>0xFF0000FF\<close> at pixel (0, 1), index \<open>1 * 2 + 0\<close>. The flush of \<open>(0, 0, 1, 2)\<close> reads
  \<^verbatim>\<open>shadow_buffer[width * row + column]\<close> with the width 1 of the flushed area, index
  \<open>1 * 1 + 0\<close>, which is pixel (1, 0) and holds \<^verbatim>\<open>0xFF000002\<close>; the bytes at offset
  \<open>1 * 8 + 0 * 4 = 8\<close> become \<open>02 00 00 FF\<close>. \<^verbatim>\<open>memcpy\<close> is given the length 32, so the byte
  at offset 12 is no longer 0 but what followed the local variable in memory.
\<close>

theorem flush_copies_the_wrong_pixel:
  "(case ply_video_buffer_fill_with_color example_environment example_buffer
           (Some \<lparr>area_x = 0, area_y = 0, area_width = 1, area_height = 2\<rparr>) 0 0 1 1 of
      Inl f \<Rightarrow> None
    | Inr (ok, b) \<Rightarrow> Some (ok, shadow_buffer b,
         case map_address b of None \<Rightarrow> [] | Some memory \<Rightarrow> map memory [8, 9, 10, 11, 12]))
   = Some (True, [0xFF0000FF, 0xFF000002, 0xFF0000FF, 0xFF000004], [0x02, 0, 0, 0xFF, 0xAA])
   \<and> ply_video_buffer_pixel_value_to_device_pixel_value example_buffer 0xFF0000FF = 0xFF0000FF
   \<and> map (pixel_byte example_environment 0xFF0000FF) [0, 1, 2, 3] = [0xFF, 0, 0, 0xFF]"
  by (simp add: model_defs example_buffer_def example_environment_def Let_def)

text \<open>
  C5. The property: for every alpha below 1.0, \<^verbatim>\<open>ply_video_buffer_fill_with_color\<close>
  blends the colour into every pixel of the area instead of overwriting it. The code
  at \<^verbatim>\<open>alpha = 0.5\<close> overwrites: \<^verbatim>\<open>abs\<close> is the integer function, \<^verbatim>\<open>alpha - 1.0 = -0.5\<close>
  is converted to the \<^verbatim>\<open>int\<close> 0, and \<^verbatim>\<open>0 <= DBL_MIN\<close> holds, so the branch that
  overwrites is taken. On the two by two device, whose four pixels differ before the
  call, \<^verbatim>\<open>ply_video_buffer_fill_with_color\<close> with red 1 and alpha 0.5 leaves \<^verbatim>\<open>0x7F7F0000\<close>
  in all four.
\<close>

theorem fill_with_color_translucent_overwrites:
  "abs_alpha_minus_1_le_DBL_MIN (1 / 2)
   \<and> shadow_buffer example_buffer = [0xFF000001, 0xFF000002, 0xFF000003, 0xFF000004]
   \<and> (case ply_video_buffer_fill_with_color example_environment example_buffer None 1 0 0 (1 / 2) of
        Inl f \<Rightarrow> None
      | Inr (ok, b) \<Rightarrow> Some (ok, shadow_buffer b))
     = Some (True, [0x7F7F0000, 0x7F7F0000, 0x7F7F0000, 0x7F7F0000])"
  by (simp add: model_defs example_buffer_def example_environment_def Let_def)

text \<open>
  C7. A flush that pause does not suppress ends with \<^verbatim>\<open>msync\<close>. When \<^verbatim>\<open>msync\<close> fails,
  the flush returns \<^verbatim>\<open>false\<close> and the area to flush, the shadow buffer and the
  visible area are what they were, so a later flush copies the same pixels. When
  \<^verbatim>\<open>msync\<close> succeeds, the flush returns \<^verbatim>\<open>true\<close> and the area to flush is the
  rectangle \<open>(0, 0, 0, 0)\<close>.
\<close>

theorem flush_sync_failure_keeps_area_to_flush:
  assumes "buffer_ok b" and "\<not> is_paused b"
  shows "(msync_of_flush env b < 0 \<longrightarrow>
           (\<exists>b'. ply_video_buffer_flush env b = Inr (False, b')
              \<and> area_to_flush b' = area_to_flush b
              \<and> shadow_buffer b' = shadow_buffer b \<and> area b' = area b \<and> \<not> is_paused b'))
       \<and> (\<not> msync_of_flush env b < 0 \<longrightarrow>
           (\<exists>b'. ply_video_buffer_flush env b = Inr (True, b')
              \<and> area_to_flush b' = \<lparr>area_x = 0, area_y = 0, area_width = 0, area_height = 0\<rparr>))"
proof -
  from flush_result [OF assms(2,1), of env] obtain b1 where b1: "same_but_map b b1"
    "ply_video_buffer_flush env b =
       (if msync_of_flush env b < 0 then Inr (False, b1)
        else Inr (True, b1\<lparr>area_to_flush :=
               \<lparr>area_x = 0, area_y = 0, area_width = 0, area_height = 0\<rparr>\<rparr>))"
    by blast
  show ?thesis
    using b1(2) same_but_map_fields [OF b1(1)] assms(2) by auto
qed

theorem flush_sync_failure_keeps_area_to_flush_witness:
  "buffer_ok dirty_buffer
   \<and> (\<exists>b'. ply_video_buffer_flush failing_environment
          dirty_buffer
          = Inr (False, b')
        \<and> area_to_flush b' = \<lparr>area_x = 0, area_y = 0, area_width = 2, area_height = 1\<rparr>)
   \<and> (\<exists>b'. ply_video_buffer_flush example_environment
          dirty_buffer
          = Inr (True, b')
        \<and> area_to_flush b' = \<lparr>area_x = 0, area_y = 0, area_width = 0, area_height = 0\<rparr>)"
proof -
  have ok: "buffer_ok dirty_buffer"
    by (simp add: buffer_ok_def dirty_buffer_def example_buffer_def
        ply_video_buffer_device_is_open_def)
  have unpaused: "\<not> is_paused dirty_buffer"
    by (simp add: dirty_buffer_def example_buffer_def)
  have fails: "msync_of_flush failing_environment dirty_buffer < 0"
    by (simp add: msync_of_flush_def failing_environment_def)
  have succeeds: "\<not> msync_of_flush example_environment dirty_buffer < 0"
    by (simp add: msync_of_flush_def example_environment_def)
  have atf: "area_to_flush dirty_buffer = \<lparr>area_x = 0, area_y = 0, area_width = 2, area_height = 1\<rparr>"
    by (simp add: dirty_buffer_def)
  show ?thesis
    using flush_sync_failure_keeps_area_to_flush [OF ok unpaused, of failing_environment]
      flush_sync_failure_keeps_area_to_flush [OF ok unpaused, of example_environment]
      ok fails succeeds unfolding atf by blast
qed

text \<open>
  C4. On an open buffer, for every area inside the visible area (or no area, meaning
  the whole visible area) and whatever the shadow buffer holds,
  \<^verbatim>\<open>ply_video_buffer_fill_with_color\<close> with \<^verbatim>\<open>alpha = 1.0\<close> returns, and afterwards every
  pixel of the area is the packed colour whose red, green and blue were multiplied
  by alpha before packing.
\<close>

theorem fill_with_color_opaque_overwrites:
  assumes "buffer_ok b" and "area_in_buffer b a"
    and "a = (case area_arg of None \<Rightarrow> area b | Some given \<Rightarrow> given)"
  shows "\<exists>ok b'. ply_video_buffer_fill_with_color env b area_arg red green blue 1 = Inr (ok, b')
    \<and> (\<forall>x y. pixel_in_area a x y \<longrightarrow>
          ply_video_buffer_get_value_at_pixel b' x y =
            Inr (PLY_VIDEO_BUFFER_COLOR_TO_PIXEL_VALUE (red * 1) (green * 1) (blue * 1) 1))"
proof -
  let ?v = "PLY_VIDEO_BUFFER_COLOR_TO_PIXEL_VALUE (red * 1) (green * 1) (blue * 1) 1"
  let ?U = "\<lparr>area_x = min (area_x (area_to_flush b)) (area_x a),
             area_y = min (area_y (area_to_flush b)) (area_y a),
             area_width = max (area_width (area_to_flush b)) (area_width a),
             area_height = max (area_height (area_to_flush b)) (area_height a)\<rparr>"
  have opaque: "abs_alpha_minus_1_le_DBL_MIN 1"
    by (simp add: abs_alpha_minus_1_le_DBL_MIN_iff)
  have shadow: "length (shadow_buffer b) = area_width (area b) * area_height (area b)"
    using assms(1) by (simp add: buffer_ok_def)
  from fill_with_color_steps [OF assms, of 1 red green blue] opaque
  obtain s where s: "same_but_shadow b s"
    "ply_video_buffer_set_area_to_pixel_value b a ?v = Inr s"
    "\<And>p env. ply_video_buffer_fill_with_color env (b\<lparr>is_paused := p\<rparr>) area_arg red green blue 1 =
       ply_video_buffer_flush env (s\<lparr>area_to_flush := ?U, is_paused := p\<rparr>)"
    by auto
  have bounds: "area_x a + area_width a \<le> area_width (area b)"
    "area_y a + area_height a \<le> area_height (area b)"
    using assms(2) by (simp_all add: area_in_buffer_def)
  from set_area_result [OF bounds shadow, of ?v] s(2)
  have pixels: "\<forall>row column. pixel_in_area a column row \<longrightarrow>
      shadow_buffer s ! (row * area_width (area b) + column) = ?v"
    by auto
  have "ply_video_buffer_fill_with_color env b area_arg red green blue 1 =
      ply_video_buffer_flush env (s\<lparr>area_to_flush := ?U, is_paused := is_paused b\<rparr>)"
    using s(3) [of env "is_paused b"] by simp
  moreover from flush_total [OF buffer_ok_after_draw [OF assms(1,2) s(1)], of env "is_paused b"]
  obtain ok b' where b': "ply_video_buffer_flush env (s\<lparr>area_to_flush := ?U, is_paused := is_paused b\<rparr>)
      = Inr (ok, b')" "shadow_buffer b' = shadow_buffer s" "area b' = area s"
    by auto
  ultimately have call: "ply_video_buffer_fill_with_color env b area_arg red green blue 1 = Inr (ok, b')"
    by simp
  have "ply_video_buffer_get_value_at_pixel b' x y = Inr ?v" if "pixel_in_area a x y" for x y
  proof -
    have "y * area_width (area b) + x < length (shadow_buffer b)"
      using assms(2) that shadow by (rule pixel_in_area_index)
    then show ?thesis
      using that pixels b'(2,3) same_but_shadow_fields(1,6) [OF s(1)]
      by (simp add: ply_video_buffer_get_value_at_pixel_def)
  qed
  with call show ?thesis by blast
qed

theorem fill_with_color_opaque_overwrites_witness:
  "buffer_ok example_buffer
   \<and> area_in_buffer example_buffer \<lparr>area_x = 1, area_y = 0, area_width = 1, area_height = 2\<rparr>
   \<and> pixel_in_area \<lparr>area_x = 1, area_y = 0, area_width = 1, area_height = 2\<rparr> 1 1
   \<and> (\<exists>ok b'. ply_video_buffer_fill_with_color example_environment example_buffer
          (Some \<lparr>area_x = 1, area_y = 0, area_width = 1, area_height = 2\<rparr>) 1 0 0 1 = Inr (ok, b')
        \<and> ply_video_buffer_get_value_at_pixel b' 1 1 = Inr 0xFFFF0000)"
proof -
  let ?a = "\<lparr>area_x = 1, area_y = 0, area_width = 1, area_height = 2\<rparr>"
  have ok: "buffer_ok example_buffer"
    by (simp add: buffer_ok_def example_buffer_def ply_video_buffer_device_is_open_def)
  have inside: "area_in_buffer example_buffer ?a"
    by (simp add: area_in_buffer_def example_buffer_def)
  have pixel: "pixel_in_area ?a 1 1"
    by (simp add: pixel_in_area_def)
  have colour: "PLY_VIDEO_BUFFER_COLOR_TO_PIXEL_VALUE (1 * 1) (0 * 1) (0 * 1) 1 = 0xFFFF0000"
    by (simp add: PLY_VIDEO_BUFFER_COLOR_TO_PIXEL_VALUE_def color_channel_to_byte_def)
  from fill_with_color_opaque_overwrites [OF ok inside, of "Some ?a" example_environment 1 0 0]
  show ?thesis
    using ok inside pixel unfolding colour by auto
qed

text \<open>
  C10. \<^verbatim>\<open>ply_video_buffer_unpause_updates\<close> clears \<^verbatim>\<open>is_paused\<close> before it flushes.
  When the \<^verbatim>\<open>msync\<close> of that flush fails, the call returns \<^verbatim>\<open>false\<close>, the buffer is
  no longer paused and the area to flush and the shadow buffer are unchanged. A
  later flush is not suppressed: it copies the same rectangle, and when its
  \<^verbatim>\<open>msync\<close> succeeds it returns \<^verbatim>\<open>true\<close> and empties the area to flush.
\<close>

theorem unpause_updates_failure_leaves_unpaused:
  assumes "buffer_ok b" and "msync_of_flush env b < 0"
  shows "\<exists>b'. ply_video_buffer_unpause_updates env b = Inr (False, b')
    \<and> \<not> is_paused b'
    \<and> area_to_flush b' = area_to_flush b
    \<and> shadow_buffer b' = shadow_buffer b
    \<and> ply_video_buffer_flush env' b' =
        (case ply_video_buffer_copy_to_device env' b'
                (area_x (area_to_flush b)) (area_y (area_to_flush b))
                (area_width (area_to_flush b)) (area_height (area_to_flush b))
         of Inl f \<Rightarrow> Inl f
          | Inr (copied, s) \<Rightarrow>
              if \<not> copied then Inr (False, s)
              else Inr (True, s\<lparr>area_to_flush :=
                     \<lparr>area_x = 0, area_y = 0, area_width = 0, area_height = 0\<rparr>\<rparr>))
    \<and> (\<not> msync_of_flush env' b < 0 \<longrightarrow>
         (\<exists>b''. ply_video_buffer_flush env' b' = Inr (True, b'')
            \<and> area_to_flush b'' = \<lparr>area_x = 0, area_y = 0, area_width = 0, area_height = 0\<rparr>))"
proof -
  let ?b = "b\<lparr>is_paused := False\<rparr>"
  have ok: "buffer_ok ?b" and unpaused: "\<not> is_paused ?b"
    using assms(1) by (simp_all add: buffer_ok_def ply_video_buffer_device_is_open_def)
  have msync: "msync_of_flush e ?b = msync_of_flush e b" for e
    by (simp add: msync_of_flush_def)
  from flush_result [OF unpaused ok, of env] assms(2) obtain b' where b': "same_but_map ?b b'"
    "ply_video_buffer_flush env ?b = Inr (False, b')"
    by (auto simp: msync)
  have fields: "area_to_flush b' = area_to_flush b" "shadow_buffer b' = shadow_buffer b"
    "\<not> is_paused b'"
    using same_but_map_fields [OF b'(1)] by simp_all
  have retry: "ply_video_buffer_flush env' b' =
        (case ply_video_buffer_copy_to_device env' b'
                (area_x (area_to_flush b)) (area_y (area_to_flush b))
                (area_width (area_to_flush b)) (area_height (area_to_flush b))
         of Inl f \<Rightarrow> Inl f
          | Inr (copied, s) \<Rightarrow>
              if \<not> copied then Inr (False, s)
              else Inr (True, s\<lparr>area_to_flush :=
                     \<lparr>area_x = 0, area_y = 0, area_width = 0, area_height = 0\<rparr>\<rparr>))"
    using fields by (simp add: ply_video_buffer_flush_def)
  have later: "\<exists>b''. ply_video_buffer_flush env' b' = Inr (True, b'')
            \<and> area_to_flush b'' = \<lparr>area_x = 0, area_y = 0, area_width = 0, area_height = 0\<rparr>"
    if "\<not> msync_of_flush env' b < 0"
  proof -
    have "\<not> msync_of_flush env' b' < 0"
      using that by (simp add: same_but_map_msync [OF b'(1)] msync)
    with flush_result [OF fields(3) same_but_map_buffer_ok [OF b'(1) ok], of env']
    obtain b1 where "ply_video_buffer_flush env' b' =
        Inr (True, b1\<lparr>area_to_flush :=
               \<lparr>area_x = 0, area_y = 0, area_width = 0, area_height = 0\<rparr>\<rparr>)"
      by auto
    then show ?thesis by simp
  qed
  from b'(2) fields retry later show ?thesis
    unfolding ply_video_buffer_unpause_updates_def by blast
qed

theorem unpause_updates_failure_leaves_unpaused_witness:
  "buffer_ok paused_buffer \<and> msync_of_flush failing_environment paused_buffer < 0
   \<and> \<not> msync_of_flush example_environment paused_buffer < 0
   \<and> (\<exists>b'. ply_video_buffer_unpause_updates failing_environment paused_buffer = Inr (False, b')
        \<and> \<not> is_paused b'
        \<and> area_to_flush b' = \<lparr>area_x = 0, area_y = 0, area_width = 2, area_height = 1\<rparr>
        \<and> (\<exists>b''. ply_video_buffer_flush example_environment b' = Inr (True, b'')
              \<and> area_to_flush b'' = \<lparr>area_x = 0, area_y = 0, area_width = 0, area_height = 0\<rparr>))"
proof -
  have ok: "buffer_ok paused_buffer"
    by (simp add: buffer_ok_def paused_buffer_def dirty_buffer_def example_buffer_def
        ply_video_buffer_device_is_open_def)
  have fails: "msync_of_flush failing_environment paused_buffer < 0"
    by (simp add: msync_of_flush_def failing_environment_def)
  have succeeds: "\<not> msync_of_flush example_environment paused_buffer < 0"
    by (simp add: msync_of_flush_def example_environment_def)
  have atf: "area_to_flush paused_buffer = \<lparr>area_x = 0, area_y = 0, area_width = 2, area_height = 1\<rparr>"
    by (simp add: paused_buffer_def dirty_buffer_def)
  from unpause_updates_failure_leaves_unpaused [OF ok fails, of example_environment]
  show ?thesis
    using ok fails succeeds unfolding atf by blast
qed

text \<open>
  C9, as stated for any successful flush, fails at a flush made while paused: it
  returns \<^verbatim>\<open>true\<close> (lines 425-426) and the area to flush is still \<open>(0, 0, 2, 1)\<close>, not
  \<open>(0, 0, 0, 0)\<close>; adding the area \<open>(0, 0, 1, 1)\<close> then records \<open>(0, 0, 2, 1)\<close>.
\<close>

theorem paused_flush_succeeds_without_reset:
  "is_paused paused_buffer
   \<and> ply_video_buffer_flush example_environment paused_buffer = Inr (True, paused_buffer)
   \<and> area_to_flush paused_buffer = \<lparr>area_x = 0, area_y = 0, area_width = 2, area_height = 1\<rparr>
   \<and> ply_video_buffer_add_area_to_flush_area paused_buffer
         \<lparr>area_x = 0, area_y = 0, area_width = 1, area_height = 1\<rparr>
       = Inr (paused_buffer\<lparr>area_to_flush :=
           \<lparr>area_x = 0, area_y = 0, area_width = 2, area_height = 1\<rparr>\<rparr>)"
  by (simp add: ply_video_buffer_flush_def ply_video_buffer_add_area_to_flush_area_def
      paused_buffer_def dirty_buffer_def example_buffer_def)

text \<open>
  C9, amended. A flush that pause does not suppress and whose \<^verbatim>\<open>msync\<close> succeeds
  stores the rectangle \<open>(0, 0, 0, 0)\<close> as the area to flush. The next draw call takes the
  minimum of that origin and the origin of its area, so whatever area inside the
  visible area it draws, \<^verbatim>\<open>ply_video_buffer_add_area_to_flush_area\<close> records, and the
  flush at the end of \<^verbatim>\<open>ply_video_buffer_fill_with_color\<close> is given, the rectangle
  \<open>(0, 0, width, height)\<close> of the area's width and height. When the area is not empty
  and not at the origin, its last pixel is outside the recorded rectangle.
\<close>

theorem first_draw_after_flush_recorded_at_origin:
  assumes "buffer_ok b" and "\<not> is_paused b" and "\<not> msync_of_flush env b < 0"
  shows "\<exists>b'. ply_video_buffer_flush env b = Inr (True, b')
    \<and> area_to_flush b' = \<lparr>area_x = 0, area_y = 0, area_width = 0, area_height = 0\<rparr>
    \<and> area b' = area b
    \<and> (\<forall>a area_arg.
          area_in_buffer b' a \<and> a = (case area_arg of None \<Rightarrow> area b' | Some given \<Rightarrow> given) \<longrightarrow>
            ply_video_buffer_add_area_to_flush_area b' a =
              Inr (b'\<lparr>area_to_flush :=
                \<lparr>area_x = 0, area_y = 0, area_width = area_width a, area_height = area_height a\<rparr>\<rparr>)
          \<and> (\<exists>s. same_but_shadow b' s
               \<and> ply_video_buffer_fill_with_color env' b' area_arg red green blue alpha =
                   ply_video_buffer_flush env' (s\<lparr>area_to_flush :=
                     \<lparr>area_x = 0, area_y = 0, area_width = area_width a, area_height = area_height a\<rparr>\<rparr>))
          \<and> (0 < area_width a \<and> 0 < area_height a \<and> (0 < area_x a \<or> 0 < area_y a) \<longrightarrow>
               pixel_in_area a (area_x a + area_width a - 1) (area_y a + area_height a - 1)
             \<and> \<not> pixel_in_area
                   \<lparr>area_x = 0, area_y = 0, area_width = area_width a, area_height = area_height a\<rparr>
                   (area_x a + area_width a - 1) (area_y a + area_height a - 1)))"
proof -
  from flush_result [OF assms(2,1), of env] assms(3) obtain b1 where b1: "same_but_map b b1"
    "ply_video_buffer_flush env b = Inr (True, b1\<lparr>area_to_flush :=
               \<lparr>area_x = 0, area_y = 0, area_width = 0, area_height = 0\<rparr>\<rparr>)"
    by auto
  let ?b' = "b1\<lparr>area_to_flush := \<lparr>area_x = 0, area_y = 0, area_width = 0, area_height = 0\<rparr>\<rparr>"
  have fields: "area ?b' = area b" "\<not> is_paused ?b'"
    "area_to_flush ?b' = \<lparr>area_x = 0, area_y = 0, area_width = 0, area_height = 0\<rparr>"
    using same_but_map_fields [OF b1(1)] assms(2) by simp_all
  have ok: "buffer_ok ?b'"
    using same_but_map_buffer_ok [OF b1(1) assms(1)]
    by (simp add: buffer_ok_def ply_video_buffer_device_is_open_def)
  have draw: "ply_video_buffer_add_area_to_flush_area ?b' a =
              Inr (?b'\<lparr>area_to_flush :=
                \<lparr>area_x = 0, area_y = 0, area_width = area_width a, area_height = area_height a\<rparr>\<rparr>)
          \<and> (\<exists>s. same_but_shadow ?b' s
               \<and> ply_video_buffer_fill_with_color env' ?b' area_arg red green blue alpha =
                   ply_video_buffer_flush env' (s\<lparr>area_to_flush :=
                     \<lparr>area_x = 0, area_y = 0, area_width = area_width a, area_height = area_height a\<rparr>\<rparr>))
          \<and> (0 < area_width a \<and> 0 < area_height a \<and> (0 < area_x a \<or> 0 < area_y a) \<longrightarrow>
               pixel_in_area a (area_x a + area_width a - 1) (area_y a + area_height a - 1)
             \<and> \<not> pixel_in_area
                   \<lparr>area_x = 0, area_y = 0, area_width = area_width a, area_height = area_height a\<rparr>
                   (area_x a + area_width a - 1) (area_y a + area_height a - 1))"
    if a: "area_in_buffer ?b' a" "a = (case area_arg of None \<Rightarrow> area ?b' | Some given \<Rightarrow> given)"
    for a area_arg
  proof (intro conjI)
    show "ply_video_buffer_add_area_to_flush_area ?b' a =
              Inr (?b'\<lparr>area_to_flush :=
                \<lparr>area_x = 0, area_y = 0, area_width = area_width a, area_height = area_height a\<rparr>\<rparr>)"
      using add_area_result [OF a(1)] by simp
    from fill_with_color_steps [OF ok a, of alpha red green blue]
    obtain s where s: "same_but_shadow ?b' s"
      "\<And>p env. ply_video_buffer_fill_with_color env (?b'\<lparr>is_paused := p\<rparr>) area_arg red green blue alpha =
          ply_video_buffer_flush env (s\<lparr>area_to_flush :=
            \<lparr>area_x = min (area_x (area_to_flush ?b')) (area_x a),
             area_y = min (area_y (area_to_flush ?b')) (area_y a),
             area_width = max (area_width (area_to_flush ?b')) (area_width a),
             area_height = max (area_height (area_to_flush ?b')) (area_height a)\<rparr>, is_paused := p\<rparr>)"
      by blast
    let ?U = "\<lparr>area_x = 0, area_y = 0, area_width = area_width a, area_height = area_height a\<rparr>"
    have b_same: "?b'\<lparr>is_paused := False\<rparr> = ?b'"
      using fields(2) by (intro is_paused_update_same) simp
    have "is_paused (s\<lparr>area_to_flush := ?U\<rparr>) = False"
      using same_but_shadow_fields(4) [OF s(1)] fields(2) by simp
    then have s_same: "s\<lparr>area_to_flush := ?U, is_paused := False\<rparr> = s\<lparr>area_to_flush := ?U\<rparr>"
      by (rule is_paused_update_same)
    have "ply_video_buffer_fill_with_color env' ?b' area_arg red green blue alpha =
        ply_video_buffer_flush env' (s\<lparr>area_to_flush := ?U\<rparr>)"
      using s(2) [of env' False] unfolding b_same fields(3) by (simp add: s_same)
    with s(1) show "\<exists>s. same_but_shadow ?b' s
               \<and> ply_video_buffer_fill_with_color env' ?b' area_arg red green blue alpha =
                   ply_video_buffer_flush env' (s\<lparr>area_to_flush :=
                     \<lparr>area_x = 0, area_y = 0, area_width = area_width a, area_height = area_height a\<rparr>\<rparr>)"
      by blast
    show "0 < area_width a \<and> 0 < area_height a \<and> (0 < area_x a \<or> 0 < area_y a) \<longrightarrow>
               pixel_in_area a (area_x a + area_width a - 1) (area_y a + area_height a - 1)
             \<and> \<not> pixel_in_area
                   \<lparr>area_x = 0, area_y = 0, area_width = area_width a, area_height = area_height a\<rparr>
                   (area_x a + area_width a - 1) (area_y a + area_height a - 1)"
      by (auto simp: pixel_in_area_def)
  qed
  from b1(2) fields(1,3) draw show ?thesis by blast
qed

theorem first_draw_after_flush_recorded_at_origin_witness:
  "buffer_ok dirty_buffer \<and> \<not> is_paused dirty_buffer
   \<and> \<not> msync_of_flush example_environment dirty_buffer < 0
   \<and> (\<exists>b'. ply_video_buffer_flush example_environment dirty_buffer = Inr (True, b')
        \<and> area_to_flush b' = \<lparr>area_x = 0, area_y = 0, area_width = 0, area_height = 0\<rparr>
        \<and> area_in_buffer b' \<lparr>area_x = 1, area_y = 1, area_width = 1, area_height = 1\<rparr>
        \<and> ply_video_buffer_add_area_to_flush_area b'
              \<lparr>area_x = 1, area_y = 1, area_width = 1, area_height = 1\<rparr> =
            Inr (b'\<lparr>area_to_flush := \<lparr>area_x = 0, area_y = 0, area_width = 1, area_height = 1\<rparr>\<rparr>)
        \<and> pixel_in_area \<lparr>area_x = 1, area_y = 1, area_width = 1, area_height = 1\<rparr> 1 1
        \<and> \<not> pixel_in_area \<lparr>area_x = 0, area_y = 0, area_width = 1, area_height = 1\<rparr> 1 1)"
proof -
  let ?a = "\<lparr>area_x = 1, area_y = 1, area_width = 1, area_height = 1\<rparr>"
  have ok: "buffer_ok dirty_buffer"
    by (simp add: buffer_ok_def dirty_buffer_def example_buffer_def
        ply_video_buffer_device_is_open_def)
  have unpaused: "\<not> is_paused dirty_buffer"
    by (simp add: dirty_buffer_def example_buffer_def)
  have succeeds: "\<not> msync_of_flush example_environment dirty_buffer < 0"
    by (simp add: msync_of_flush_def example_environment_def)
  from first_draw_after_flush_recorded_at_origin [OF ok unpaused succeeds]
  obtain b' where b': "ply_video_buffer_flush example_environment dirty_buffer = Inr (True, b')"
    "area_to_flush b' = \<lparr>area_x = 0, area_y = 0, area_width = 0, area_height = 0\<rparr>"
    "area b' = area dirty_buffer"
    "\<And>a area_arg. area_in_buffer b' a \<Longrightarrow>
        a = (case area_arg of None \<Rightarrow> area b' | Some given \<Rightarrow> given) \<Longrightarrow>
        ply_video_buffer_add_area_to_flush_area b' a =
              Inr (b'\<lparr>area_to_flush :=
                \<lparr>area_x = 0, area_y = 0, area_width = area_width a, area_height = area_height a\<rparr>\<rparr>)
        \<and> (0 < area_width a \<and> 0 < area_height a \<and> (0 < area_x a \<or> 0 < area_y a) \<longrightarrow>
               pixel_in_area a (area_x a + area_width a - 1) (area_y a + area_height a - 1)
             \<and> \<not> pixel_in_area
                   \<lparr>area_x = 0, area_y = 0, area_width = area_width a, area_height = area_height a\<rparr>
                   (area_x a + area_width a - 1) (area_y a + area_height a - 1))"
    by blast
  have inside: "area_in_buffer b' ?a"
    using b'(3) by (simp add: area_in_buffer_def dirty_buffer_def example_buffer_def)
  from b'(4) [OF inside, of "Some ?a"] b'(1,2) inside ok unpaused succeeds
  show ?thesis by simp
qed



text \<open>
  C8, as stated for every channel descriptor, fails at the device whose three
  colours share the bits 0 to 7: red is 8 bits wide, the pixel has red 1 and green 2,
  the device pixel is \<open>1 OR 2 = 3\<close>, and reading red back gives 3, not
  \<open>1 AND NOT 0 = 1\<close>.
\<close>

theorem round_trip_fails_on_overlapping_channels:
  "1 \<le> unat (bits_for_red pseudocolor_buffer) \<and> unat (bits_for_red pseudocolor_buffer) \<le> 8
   \<and> device_channel_to_byte (red_bit_position pseudocolor_buffer) (bits_for_red pseudocolor_buffer)
         (ply_video_buffer_pixel_value_to_device_pixel_value pseudocolor_buffer 0x00010200) = 3
   \<and> truncated_channel (bits_for_red pseudocolor_buffer)
         (ucast (drop_bit 16 (0x00010200 :: u32) AND 0xff)) = 1"
  by (simp add: pseudocolor_buffer_def example_buffer_def device_channel_to_byte_def
      truncated_channel_def ply_video_buffer_pixel_value_to_device_pixel_value_def)

text \<open>
  C8, amended. On a device whose four channels lie in the 32 bit word and are
  pairwise apart, for every channel of width 1 to 8 and every pixel value: converting
  the pixel with \<^verbatim>\<open>ply_video_buffer_pixel_value_to_device_pixel_value\<close> and reading the
  channel back through its position and width gives the channel's byte with its low
  \<open>8 - width\<close> bits cleared.
\<close>

theorem device_pixel_truncation_round_trip:
  assumes "device_layout_ok b"
  shows "(1 \<le> unat (bits_for_alpha b) \<longrightarrow>
            device_channel_to_byte (alpha_bit_position b) (bits_for_alpha b)
              (ply_video_buffer_pixel_value_to_device_pixel_value b pixel_value)
            = truncated_channel (bits_for_alpha b) (ucast (drop_bit 24 pixel_value)))
       \<and> (1 \<le> unat (bits_for_red b) \<longrightarrow>
            device_channel_to_byte (red_bit_position b) (bits_for_red b)
              (ply_video_buffer_pixel_value_to_device_pixel_value b pixel_value)
            = truncated_channel (bits_for_red b) (ucast (drop_bit 16 pixel_value AND 0xff)))
       \<and> (1 \<le> unat (bits_for_green b) \<longrightarrow>
            device_channel_to_byte (green_bit_position b) (bits_for_green b)
              (ply_video_buffer_pixel_value_to_device_pixel_value b pixel_value)
            = truncated_channel (bits_for_green b) (ucast (drop_bit 8 pixel_value AND 0xff)))
       \<and> (1 \<le> unat (bits_for_blue b) \<longrightarrow>
            device_channel_to_byte (blue_bit_position b) (bits_for_blue b)
              (ply_video_buffer_pixel_value_to_device_pixel_value b pixel_value)
            = truncated_channel (bits_for_blue b) (ucast (pixel_value AND 0xff)))"
proof -
  from assms have in_word:
    "channel_in_word (alpha_bit_position b) (bits_for_alpha b)"
    "channel_in_word (red_bit_position b) (bits_for_red b)"
    "channel_in_word (green_bit_position b) (bits_for_green b)"
    "channel_in_word (blue_bit_position b) (bits_for_blue b)"
    unfolding device_layout_ok_def by blast+
  from assms have apart:
    "channels_apart (alpha_bit_position b) (bits_for_alpha b) (red_bit_position b) (bits_for_red b)"
    "channels_apart (alpha_bit_position b) (bits_for_alpha b) (green_bit_position b) (bits_for_green b)"
    "channels_apart (alpha_bit_position b) (bits_for_alpha b) (blue_bit_position b) (bits_for_blue b)"
    "channels_apart (red_bit_position b) (bits_for_red b) (green_bit_position b) (bits_for_green b)"
    "channels_apart (red_bit_position b) (bits_for_red b) (blue_bit_position b) (bits_for_blue b)"
    "channels_apart (green_bit_position b) (bits_for_green b) (blue_bit_position b) (bits_for_blue b)"
    unfolding device_layout_ok_def by blast+
  have alpha: "device_channel_to_byte (alpha_bit_position b) (bits_for_alpha b)
              (ply_video_buffer_pixel_value_to_device_pixel_value b pixel_value)
            = truncated_channel (bits_for_alpha b) (ucast (drop_bit 24 pixel_value))"
    if h: "1 \<le> unat (bits_for_alpha b)"
    unfolding device_pixel_value_eq
    by (subst or_four(1))
      (rule round_trip_among_four [OF h in_word(1)
            in_word(2) disjI1 [OF apart(1)] in_word(3) disjI1 [OF apart(2)]
            in_word(4) disjI1 [OF apart(3)]])
  have red: "device_channel_to_byte (red_bit_position b) (bits_for_red b)
              (ply_video_buffer_pixel_value_to_device_pixel_value b pixel_value)
            = truncated_channel (bits_for_red b) (ucast (drop_bit 16 pixel_value AND 0xff))"
    if h: "1 \<le> unat (bits_for_red b)"
    unfolding device_pixel_value_eq
    by (subst or_four(2))
      (rule round_trip_among_four [OF h in_word(2)
            in_word(1) disjI2 [OF apart(1)] in_word(3) disjI1 [OF apart(4)]
            in_word(4) disjI1 [OF apart(5)]])
  have green: "device_channel_to_byte (green_bit_position b) (bits_for_green b)
              (ply_video_buffer_pixel_value_to_device_pixel_value b pixel_value)
            = truncated_channel (bits_for_green b) (ucast (drop_bit 8 pixel_value AND 0xff))"
    if h: "1 \<le> unat (bits_for_green b)"
    unfolding device_pixel_value_eq
    by (subst or_four(3))
      (rule round_trip_among_four [OF h in_word(3)
            in_word(1) disjI2 [OF apart(2)] in_word(2) disjI2 [OF apart(4)]
            in_word(4) disjI1 [OF apart(6)]])
  have blue: "device_channel_to_byte (blue_bit_position b) (bits_for_blue b)
              (ply_video_buffer_pixel_value_to_device_pixel_value b pixel_value)
            = truncated_channel (bits_for_blue b) (ucast (pixel_value AND 0xff))"
    if h: "1 \<le> unat (bits_for_blue b)"
    unfolding device_pixel_value_eq
    by (subst or_four(4))
      (rule round_trip_among_four [OF h in_word(4)
            in_word(1) disjI2 [OF apart(3)] in_word(2) disjI2 [OF apart(5)]
            in_word(3) disjI2 [OF apart(6)]])
  from alpha red green blue show ?thesis by blast
qed

theorem device_pixel_truncation_round_trip_witness:
  "device_layout_ok rgb565_buffer
   \<and> 1 \<le> unat (bits_for_red rgb565_buffer) \<and> 1 \<le> unat (bits_for_green rgb565_buffer)
   \<and> 1 \<le> unat (bits_for_blue rgb565_buffer)
   \<and> ply_video_buffer_pixel_value_to_device_pixel_value rgb565_buffer 0xFFABCDEF = 0xAE7D
   \<and> device_channel_to_byte (red_bit_position rgb565_buffer) (bits_for_red rgb565_buffer)
         (ply_video_buffer_pixel_value_to_device_pixel_value rgb565_buffer 0xFFABCDEF) = 0xA8
   \<and> device_channel_to_byte (green_bit_position rgb565_buffer) (bits_for_green rgb565_buffer)
         (ply_video_buffer_pixel_value_to_device_pixel_value rgb565_buffer 0xFFABCDEF) = 0xCC
   \<and> device_channel_to_byte (blue_bit_position rgb565_buffer) (bits_for_blue rgb565_buffer)
         (ply_video_buffer_pixel_value_to_device_pixel_value rgb565_buffer 0xFFABCDEF) = 0xE8"
proof -
  have layout: "device_layout_ok rgb565_buffer"
    by (simp add: device_layout_ok_def channel_in_word_def channels_apart_def
        rgb565_buffer_def example_buffer_def)
  have widths: "1 \<le> unat (bits_for_red rgb565_buffer)" "1 \<le> unat (bits_for_green rgb565_buffer)"
    "1 \<le> unat (bits_for_blue rgb565_buffer)"
    by (simp_all add: rgb565_buffer_def example_buffer_def)
  have device: "ply_video_buffer_pixel_value_to_device_pixel_value rgb565_buffer 0xFFABCDEF = 0xAE7D"
    by (simp add: rgb565_buffer_def example_buffer_def
        ply_video_buffer_pixel_value_to_device_pixel_value_def)
  have truncated:
    "truncated_channel (bits_for_red rgb565_buffer) (ucast (drop_bit 16 (0xFFABCDEF :: u32) AND 0xff)) = 0xA8"
    "truncated_channel (bits_for_green rgb565_buffer) (ucast (drop_bit 8 (0xFFABCDEF :: u32) AND 0xff)) = 0xCC"
    "truncated_channel (bits_for_blue rgb565_buffer) (ucast ((0xFFABCDEF :: u32) AND 0xff)) = 0xE8"
    by (simp_all add: truncated_channel_def rgb565_buffer_def example_buffer_def)
  from device_pixel_truncation_round_trip [OF layout, of "0xFFABCDEF"] widths
  have "device_channel_to_byte (red_bit_position rgb565_buffer) (bits_for_red rgb565_buffer)
         (ply_video_buffer_pixel_value_to_device_pixel_value rgb565_buffer 0xFFABCDEF) = 0xA8"
    "device_channel_to_byte (green_bit_position rgb565_buffer) (bits_for_green rgb565_buffer)
         (ply_video_buffer_pixel_value_to_device_pixel_value rgb565_buffer 0xFFABCDEF) = 0xCC"
    "device_channel_to_byte (blue_bit_position rgb565_buffer) (bits_for_blue rgb565_buffer)
         (ply_video_buffer_pixel_value_to_device_pixel_value rgb565_buffer 0xFFABCDEF) = 0xE8"
    unfolding truncated by blast+
  with layout widths device show ?thesis by (intro conjI)
qed

end
